theory Spec2Isabelle
  imports Complex_Main "HOL-Library.Word"
begin

section \<open>Common types\<close>

text \<open>
  \<open>NekDouble\<close> is idealised as \<open>real\<close>: rounding, infinities and NaN are not modelled.
  C++ \<open>int\<close> values are mathematical integers (signed overflow is undefined behaviour
  and is left out); C++ \<open>unsigned int\<close> values are 32-bit words, and every conversion
  from \<open>int\<close> to \<open>unsigned int\<close> is written \<open>word_of_int\<close>.
\<close>

type_synonym uint = "32 word"

text \<open>
  Modelled from the spec: the macros \<open>NEKERROR\<close>, \<open>ASSERTL0\<close>, \<open>ASSERTL1\<close> and \<open>ASSERTL2\<close>
  (declared outside \<open>src/\<close>). A failure is a hard failure handed to the caller with its
  message, none is recovered from; the constructors keep the macros apart.
\<close>

datatype error =
    efatal string           \<comment> \<open>\<open>NEKERROR(ErrorUtil::efatal, msg)\<close> and a failed \<open>ASSERTL0\<close>\<close>
  | AssertL1 string         \<comment> \<open>a failed \<open>ASSERTL1(cond, msg)\<close>\<close>
  | AssertL2 string         \<comment> \<open>a failed \<open>ASSERTL2(cond, msg)\<close>\<close>
  | InvertFailed            \<comment> \<open>\<open>NekMatrix::Invert\<close> on a singular matrix\<close>

section \<open>Block sizes of the coupled solver (\<open>CoupledLinearNS::SetUpCoupledMatrix\<close>)\<close>

text \<open>What \<open>SetUpCoupledMatrix\<close> reads before it sizes its block matrices.\<close>

record CoupledLinearNS =
  nvel :: int                          \<comment> \<open>\<open>m_velocity.num_elements()\<close>\<close>
  nel :: nat                           \<comment> \<open>\<open>m_fields[m_velocity[0]]->GetNumElmts()\<close>\<close>
  singleMode :: bool                   \<comment> \<open>\<open>m_singleMode\<close>\<close>
  Offset_Elmt_Id :: "nat \<Rightarrow> nat"       \<comment> \<open>\<open>GetOffset_Elmt_Id(n)\<close>\<close>
  vel_NumBndryCoeffs :: "nat \<Rightarrow> int"   \<comment> \<open>\<open>GetExp(eid)->NumBndryCoeffs()\<close> of the velocity field\<close>
  vel_Ncoeffs :: "nat \<Rightarrow> int"          \<comment> \<open>\<open>GetExp(eid)->GetNcoeffs()\<close> of the velocity field\<close>
  p_Ncoeffs :: "nat \<Rightarrow> int"            \<comment> \<open>\<open>m_pressure->GetExp(eid)->GetNcoeffs()\<close>\<close>

record BlockSizes =
  nsize_bndry :: "uint list"
  nsize_bndry_p1 :: "uint list"
  nsize_int :: "uint list"
  nsize_p :: "uint list"
  nsize_p_m1 :: "uint list"

text \<open>\<open>HomogeneousMode\<close> is an \<open>int\<close> used as a flag: any non-zero value selects two planes.\<close>

definition nz_loc :: "CoupledLinearNS \<Rightarrow> int \<Rightarrow> int" where
  "nz_loc s HomogeneousMode =
     (if HomogeneousMode \<noteq> 0 then 2 else if singleMode s then 2 else 1)"

definition bndry_size :: "CoupledLinearNS \<Rightarrow> int \<Rightarrow> nat \<Rightarrow> uint" where
  "bndry_size s nz n =
     word_of_int (nvel s * vel_NumBndryCoeffs s (Offset_Elmt_Id s n) * nz)"

definition bndry_p1_size :: "CoupledLinearNS \<Rightarrow> int \<Rightarrow> nat \<Rightarrow> uint" where
  "bndry_p1_size s nz n = bndry_size s nz n + word_of_int nz"

definition int_size :: "CoupledLinearNS \<Rightarrow> int \<Rightarrow> nat \<Rightarrow> uint" where
  "int_size s nz n =
     word_of_int (nvel s * vel_Ncoeffs s (Offset_Elmt_Id s n) * nz) - bndry_size s nz n"

definition p_size :: "CoupledLinearNS \<Rightarrow> int \<Rightarrow> nat \<Rightarrow> uint" where
  "p_size s nz n = word_of_int (p_Ncoeffs s (Offset_Elmt_Id s n) * nz)"

definition p_m1_size :: "CoupledLinearNS \<Rightarrow> int \<Rightarrow> nat \<Rightarrow> uint" where
  "p_m1_size s nz n = p_size s nz n - word_of_int nz"

text \<open>The loop \<open>for(n = 0; n < nel; ++n)\<close> that fills the five size arrays.\<close>

definition SetUpBlockSizes :: "CoupledLinearNS \<Rightarrow> int \<Rightarrow> BlockSizes" where
  "SetUpBlockSizes s HomogeneousMode =
     (let nz = nz_loc s HomogeneousMode in
      \<lparr> nsize_bndry = map (bndry_size s nz) [0..<nel s],
        nsize_bndry_p1 = map (bndry_p1_size s nz) [0..<nel s],
        nsize_int = map (int_size s nz) [0..<nel s],
        nsize_p = map (p_size s nz) [0..<nel s],
        nsize_p_m1 = map (p_m1_size s nz) [0..<nel s] \<rparr>)"

section \<open>Dense matrices\<close>

text \<open>
  A \<open>DNekMat\<close> with its dimensions and its entries by row. \<open>mk_mat r c f\<close> is the matrix
  that a pair of nested loops \<open>for i < r, for j < c: M(i,j) = f i j\<close> fills.
\<close>

record NekMat =
  Rows :: nat
  Columns :: nat
  Elems :: "real list list"

definition mk_mat :: "nat \<Rightarrow> nat \<Rightarrow> (nat \<Rightarrow> nat \<Rightarrow> real) \<Rightarrow> NekMat" where
  "mk_mat r c f = \<lparr> Rows = r, Columns = c, Elems = map (\<lambda>i. map (f i) [0..<c]) [0..<r] \<rparr>"

definition elem :: "NekMat \<Rightarrow> nat \<Rightarrow> nat \<Rightarrow> real" where
  "elem M i j = Elems M ! i ! j"

text \<open>
  Modelled from the spec: the operators \<open>*\<close> and \<open>-\<close> of \<open>NekMatrix\<close> (declared outside
  \<open>src/\<close>), as the matrix product and the entrywise difference that the spec's
  \<open>B\<cdot>D\<inverse>\<close> and \<open>A - BDinv\<cdot>C\<close> denote.
\<close>

definition mat_mul :: "NekMat \<Rightarrow> NekMat \<Rightarrow> NekMat" where
  "mat_mul A B =
     mk_mat (Rows A) (Columns B) (\<lambda>i j. \<Sum>k\<leftarrow>[0..<Columns A]. elem A i k * elem B k j)"

definition mat_sub :: "NekMat \<Rightarrow> NekMat \<Rightarrow> NekMat" where
  "mat_sub A B = mk_mat (Rows A) (Columns A) (\<lambda>i j. elem A i j - elem B i j)"

definition identity :: "nat \<Rightarrow> NekMat" where
  "identity n = mk_mat n n (\<lambda>i j. if i = j then 1 else 0)"

definition is_inverse :: "NekMat \<Rightarrow> NekMat \<Rightarrow> bool" where
  "is_inverse D X \<longleftrightarrow>
     mat_mul D X = identity (Rows D) \<and> mat_mul X D = identity (Rows D)"

text \<open>A \<open>DNekScalMat\<close>: a scale factor and the matrix it multiplies.\<close>

record DNekScalMat =
  Scale :: real
  Owned :: NekMat

definition scal_elem :: "DNekScalMat \<Rightarrow> nat \<Rightarrow> nat \<Rightarrow> real" where
  "scal_elem S i j = Scale S * elem (Owned S) i j"

section \<open>Static condensation of one element (\<open>TetExp::CreateStaticCondMatrix\<close>)\<close>

datatype MatrixType =
  eMass | eLaplacian | eHelmholtz | eBwdTrans | eIProductWRTBase | eOtherMatrixType

datatype GeomType = eNoGeomType | eRegular | eDeformed

text \<open>The 2 x 2 block matrix that \<open>CreateStaticCondMatrix\<close> returns.\<close>

record StaticCondMatrix =
  Block00 :: DNekScalMat
  Block01 :: DNekScalMat
  Block10 :: DNekScalMat
  Block11 :: DNekScalMat

text \<open>
  What the function reads from the element and from the matrix key: the results of
  \<open>GetLocMatrix(mkey)\<close> and \<open>GetStdStaticCondMatrix(*mkey.GetStdMatKey())\<close> are fields,
  since the matrix managers are outside \<open>src/\<close>.
\<close>

record TetExp =
  m_ncoeffs :: int
  NumBndryCoeffs :: int
  Gtype :: GeomType
  BoundaryMap :: "nat list"
  InteriorMap :: "nat list"
  LocMatrix :: DNekScalMat
  StdStaticCondMatrix :: "NekMat \<times> NekMat \<times> NekMat \<times> NekMat"

definition gather :: "DNekScalMat \<Rightarrow> nat list \<Rightarrow> nat list \<Rightarrow> nat \<Rightarrow> nat \<Rightarrow> NekMat" where
  "gather mat rmap cmap r c = mk_mat r c (\<lambda>i j. scal_elem mat (rmap ! i) (cmap ! j))"

text \<open>
  The branch \<open>UseLocRegionsMatrix\<close>. The four gather loops run over \<open>i < nbdry\<close> and
  \<open>j < nint\<close> (no iteration for a negative bound). \<open>Invert\<close> is \<open>NekMatrix::Invert\<close>, a
  parameter: \<open>None\<close> is its failure on a singular matrix.
\<close>

definition UseLocRegionsMatrix ::
  "(NekMat \<Rightarrow> NekMat option) \<Rightarrow> TetExp \<Rightarrow> real \<Rightarrow> error + StaticCondMatrix" where
  "UseLocRegionsMatrix Invert e factor =
     (let nbdry = NumBndryCoeffs e;
          nint = m_ncoeffs e - nbdry;
          invfactor = 1 / factor;
          one = 1;
          mat = LocMatrix e;
          bmap = BoundaryMap e;
          imap = InteriorMap e;
          A = gather mat bmap bmap (nat nbdry) (nat nbdry);
          B = gather mat bmap imap (nat nbdry) (nat nint);
          C = gather mat imap bmap (nat nint) (nat nbdry);
          D = gather mat imap imap (nat nint) (nat nint)
      in if nint \<noteq> 0 then
           (case Invert D of
              None \<Rightarrow> Inl InvertFailed
            | Some D' \<Rightarrow>
                (let B' = mat_mul B D';
                     A' = mat_sub A (mat_mul B' C)
                 in Inr \<lparr> Block00 = \<lparr> Scale = factor, Owned = A' \<rparr>,
                          Block01 = \<lparr> Scale = one, Owned = B' \<rparr>,
                          Block10 = \<lparr> Scale = factor, Owned = C \<rparr>,
                          Block11 = \<lparr> Scale = invfactor, Owned = D' \<rparr> \<rparr>))
         else Inr \<lparr> Block00 = \<lparr> Scale = factor, Owned = A \<rparr>,
                    Block01 = \<lparr> Scale = one, Owned = B \<rparr>,
                    Block10 = \<lparr> Scale = factor, Owned = C \<rparr>,
                    Block11 = \<lparr> Scale = invfactor, Owned = D \<rparr> \<rparr>)"

definition UseStdRegionsMatrix :: "TetExp \<Rightarrow> real \<Rightarrow> error + StaticCondMatrix" where
  "UseStdRegionsMatrix e factor =
     (let invfactor = 1 / factor;
          one = 1;
          (m00, m01, m10, m11) = StdStaticCondMatrix e
      in Inr \<lparr> Block00 = \<lparr> Scale = factor, Owned = m00 \<rparr>,
               Block01 = \<lparr> Scale = one, Owned = m01 \<rparr>,
               Block10 = \<lparr> Scale = factor, Owned = m10 \<rparr>,
               Block11 = \<lparr> Scale = invfactor, Owned = m11 \<rparr> \<rparr>)"

text \<open>
  The function opens with \<open>ASSERTL2(Gtype != eNoGeomType, ...)\<close>; the macro is outside
  \<open>src/\<close>, and its failure is an error here, so that whatever is proved of a successful
  call holds whether the check is compiled in or not.
\<close>

definition CreateStaticCondMatrix ::
  "(NekMat \<Rightarrow> NekMat option) \<Rightarrow> TetExp \<Rightarrow> MatrixType \<Rightarrow> error + StaticCondMatrix" where
  "CreateStaticCondMatrix Invert e mtype =
     (if Gtype e = eNoGeomType then Inl (AssertL2 ''Geometric information is not set up'')
      else if mtype = eLaplacian \<or> mtype = eHelmholtz then UseLocRegionsMatrix Invert e 1
      else if Gtype e = eDeformed then UseLocRegionsMatrix Invert e 1
      else UseStdRegionsMatrix e (Scale (LocMatrix e)))"

text \<open>The four blocks gathered from the local matrix, named as in the specification.\<close>

definition blockA :: "TetExp \<Rightarrow> NekMat" where
  "blockA e = gather (LocMatrix e) (BoundaryMap e) (BoundaryMap e)
                (nat (NumBndryCoeffs e)) (nat (NumBndryCoeffs e))"

definition blockB :: "TetExp \<Rightarrow> NekMat" where
  "blockB e = gather (LocMatrix e) (BoundaryMap e) (InteriorMap e)
                (nat (NumBndryCoeffs e)) (nat (m_ncoeffs e - NumBndryCoeffs e))"

definition blockC :: "TetExp \<Rightarrow> NekMat" where
  "blockC e = gather (LocMatrix e) (InteriorMap e) (BoundaryMap e)
                (nat (m_ncoeffs e - NumBndryCoeffs e)) (nat (NumBndryCoeffs e))"

definition blockD :: "TetExp \<Rightarrow> NekMat" where
  "blockD e = gather (LocMatrix e) (InteriorMap e) (InteriorMap e)
                (nat (m_ncoeffs e - NumBndryCoeffs e)) (nat (m_ncoeffs e - NumBndryCoeffs e))"

section \<open>Global assembly (\<open>ExpList::GenGlobalMatrix\<close>, \<open>ExpList::GenGlobalMatrixFull\<close>)\<close>

datatype MatrixStorage =
  eFULL | eDIAGONAL | ePOSITIVE_DEFINITE_SYMMETRIC | ePOSITIVE_DEFINITE_SYMMETRIC_BANDED

record LocalToGlobalC0ContMap =
  NumGlobalCoeffs :: int
  NumGlobalDirBndCoeffs :: int
  FullSystemBandWidth :: int
  LocalToGlobalMap :: "int list"
  LocalToGlobalSign :: "real list"

text \<open>
  What the assembly loops read from the expansion \<open>(*m_exp)[n]\<close>: its number of
  coefficients and the result of \<open>GetLocMatrix(matkey)\<close>.
\<close>

record Expansion =
  Ncoeffs :: nat
  LocMat :: DNekScalMat

subsection \<open>The sparse global matrix\<close>

text \<open>
  The coordinate map \<open>spcoomat\<close>: a first contribution to a coordinate is stored, a later
  one is added to the stored value.
\<close>

type_synonym spcoomat = "int \<times> int \<rightharpoonup> real"

definition sparse_fill :: "spcoomat \<Rightarrow> int \<times> int \<Rightarrow> real \<Rightarrow> spcoomat" where
  "sparse_fill sp coord v =
     (case sp coord of None \<Rightarrow> sp(coord \<mapsto> v) | Some x \<Rightarrow> sp(coord \<mapsto> x + v))"

definition gid_of :: "LocalToGlobalC0ContMap \<Rightarrow> bool \<Rightarrow> nat \<Rightarrow> int" where
  "gid_of l2g assemble k = (if assemble then LocalToGlobalMap l2g ! k else int k)"

definition sign_of :: "LocalToGlobalC0ContMap \<Rightarrow> bool \<Rightarrow> nat \<Rightarrow> real" where
  "sign_of l2g assemble k = (if assemble then LocalToGlobalSign l2g ! k else 1)"

definition sparse_entry ::
  "LocalToGlobalC0ContMap \<Rightarrow> bool \<Rightarrow> bool \<Rightarrow> DNekScalMat \<Rightarrow> nat \<Rightarrow> nat \<Rightarrow> nat \<Rightarrow>
   nat \<Rightarrow> spcoomat \<Rightarrow> spcoomat" where
  "sparse_entry l2g first second loc_mat cntdim1 cntdim2 i j sp =
     sparse_fill sp (gid_of l2g first (cntdim1 + i), gid_of l2g second (cntdim2 + j))
       (sign_of l2g first (cntdim1 + i) * sign_of l2g second (cntdim2 + j) * scal_elem loc_mat i j)"

definition sparse_elmt ::
  "LocalToGlobalC0ContMap \<Rightarrow> bool \<Rightarrow> bool \<Rightarrow> Expansion \<Rightarrow>
   nat \<times> nat \<times> spcoomat \<Rightarrow> nat \<times> nat \<times> spcoomat" where
  "sparse_elmt l2g first second e st =
     (case st of (cntdim1, cntdim2, sp) \<Rightarrow>
        (let loc_mat = LocMat e;
             loc_rows = Rows (Owned loc_mat);
             loc_cols = Columns (Owned loc_mat)
         in (cntdim1 + loc_rows, cntdim2 + loc_cols,
             fold (\<lambda>i. fold (sparse_entry l2g first second loc_mat cntdim1 cntdim2 i)
                            [0..<loc_cols])
                  [0..<loc_rows] sp)))"

record GlobalMatrix =
  glob_rows :: uint
  glob_cols :: uint
  coo :: spcoomat

definition GenGlobalMatrix ::
  "MatrixType \<Rightarrow> int \<Rightarrow> int \<Rightarrow> LocalToGlobalC0ContMap \<Rightarrow> Expansion list \<Rightarrow>
   error + GlobalMatrix" where
  "GenGlobalMatrix mtype nvarcoeffs npoints l2g exps =
     (if mtype \<noteq> eBwdTrans \<and> mtype \<noteq> eIProductWRTBase \<and> mtype \<noteq> eMass \<and>
         mtype \<noteq> eHelmholtz \<and> mtype \<noteq> eLaplacian
      then Inl (efatal ''Global Matrix creation not defined for this type of matrix'')
      else
        (let rows = word_of_int (if mtype = eBwdTrans then npoints else NumGlobalCoeffs l2g);
             cols = word_of_int (if mtype = eIProductWRTBase then npoints
                                 else NumGlobalCoeffs l2g);
             assembleFirstDim = (mtype \<noteq> eBwdTrans);
             assembleSecondDim = (mtype \<noteq> eIProductWRTBase)
         in if nvarcoeffs > 0 \<and> exps \<noteq> []
            then Inl (efatal ''method not set up for non-Dirichlet conditions'')
            else Inr \<lparr> glob_rows = rows, glob_cols = cols,
                       coo = snd (snd (fold (sparse_elmt l2g assembleFirstDim assembleSecondDim)
                                          exps (0, 0, Map.empty))) \<rparr>))"

subsection \<open>The dense global matrix over the free degrees of freedom\<close>

text \<open>
  Modelled from the spec: \<open>GetValue\<close> and \<open>SetValue\<close> of \<open>NekMatrix\<close> (declared outside
  \<open>src/\<close>), for the spec's full and symmetric storages. A matrix in full storage keeps
  every entry; a matrix in one of the two symmetric storages keeps the upper triangle, and an
  access below the diagonal reaches the mirrored entry, which is why the assembly loop adds
  "only the upper triangular part in order to avoid entries to be entered twice". Band
  limits and index range checks are not modelled.
\<close>

record GlobalMat =
  grows :: uint
  gcols :: uint
  gstorage :: MatrixStorage
  gdata :: "nat \<times> nat \<Rightarrow> real"

definition slot :: "MatrixStorage \<Rightarrow> nat \<Rightarrow> nat \<Rightarrow> nat \<times> nat" where
  "slot st i j =
     (if (st = ePOSITIVE_DEFINITE_SYMMETRIC \<or> st = ePOSITIVE_DEFINITE_SYMMETRIC_BANDED) \<and> j < i
      then (j, i) else (i, j))"

definition GetValue :: "GlobalMat \<Rightarrow> nat \<Rightarrow> nat \<Rightarrow> real" where
  "GetValue G i j = gdata G (slot (gstorage G) i j)"

definition SetValue :: "GlobalMat \<Rightarrow> nat \<Rightarrow> nat \<Rightarrow> real \<Rightarrow> GlobalMat" where
  "SetValue G i j v = G\<lparr> gdata := (gdata G)(slot (gstorage G) i j := v) \<rparr>"

definition matStorage_of :: "MatrixType \<Rightarrow> int \<Rightarrow> uint \<Rightarrow> MatrixStorage" where
  "matStorage_of mtype bwidth rows =
     (if mtype = eHelmholtz \<or> mtype = eLaplacian
      then (if (word_of_int (2 * (bwidth + 1)) :: uint) < rows
            then ePOSITIVE_DEFINITE_SYMMETRIC_BANDED
            else ePOSITIVE_DEFINITE_SYMMETRIC)
      else eFULL)"

definition full_entry ::
  "LocalToGlobalC0ContMap \<Rightarrow> MatrixStorage \<Rightarrow> DNekScalMat \<Rightarrow> nat \<Rightarrow> nat \<Rightarrow> nat \<Rightarrow>
   GlobalMat \<Rightarrow> GlobalMat" where
  "full_entry l2g matStorage loc_mat cnt i j Gmat =
     (let NumDirBCs = NumGlobalDirBndCoeffs l2g;
          gid1 = LocalToGlobalMap l2g ! (cnt + i) - NumDirBCs;
          sign1 = LocalToGlobalSign l2g ! (cnt + i);
          gid2 = LocalToGlobalMap l2g ! (cnt + j) - NumDirBCs;
          sign2 = LocalToGlobalSign l2g ! (cnt + j)
      in if gid2 \<ge> 0 then
           (if matStorage = eFULL \<or> gid2 \<ge> gid1
            then SetValue Gmat (nat gid1) (nat gid2)
                   (GetValue Gmat (nat gid1) (nat gid2) + sign1 * sign2 * scal_elem loc_mat i j)
            else Gmat)
         else Gmat)"

definition full_row ::
  "LocalToGlobalC0ContMap \<Rightarrow> MatrixStorage \<Rightarrow> DNekScalMat \<Rightarrow> nat \<Rightarrow> nat \<Rightarrow>
   GlobalMat \<Rightarrow> GlobalMat" where
  "full_row l2g matStorage loc_mat cnt i Gmat =
     (let gid1 = LocalToGlobalMap l2g ! (cnt + i) - NumGlobalDirBndCoeffs l2g
      in if gid1 \<ge> 0
         then fold (full_entry l2g matStorage loc_mat cnt i) [0..<Columns (Owned loc_mat)] Gmat
         else Gmat)"

definition full_elmt ::
  "LocalToGlobalC0ContMap \<Rightarrow> MatrixStorage \<Rightarrow> Expansion \<Rightarrow> nat \<times> GlobalMat \<Rightarrow>
   nat \<times> GlobalMat" where
  "full_elmt l2g matStorage e st =
     (case st of (cnt, Gmat) \<Rightarrow>
        (let loc_mat = LocMat e;
             loc_lda = Columns (Owned loc_mat)
         in (cnt + Ncoeffs e,
             fold (full_row l2g matStorage loc_mat cnt) [0..<loc_lda] Gmat)))"

definition GenGlobalMatrixFull ::
  "MatrixType \<Rightarrow> int \<Rightarrow> LocalToGlobalC0ContMap \<Rightarrow> Expansion list \<Rightarrow> error + GlobalMat" where
  "GenGlobalMatrixFull mtype nvarcoeffs l2g exps =
     (let totDofs = NumGlobalCoeffs l2g;
          NumDirBCs = NumGlobalDirBndCoeffs l2g;
          rows = word_of_int (totDofs - NumDirBCs);
          cols = word_of_int (totDofs - NumDirBCs);
          bwidth = FullSystemBandWidth l2g;
          matStorage = matStorage_of mtype bwidth rows;
          Gmat = \<lparr> grows = rows, gcols = cols, gstorage = matStorage, gdata = (\<lambda>_. 0) \<rparr>
      in if nvarcoeffs > 0 \<and> exps \<noteq> []
         then Inl (efatal ''method not set up for non-Dirichlet conditions'')
         else Inr (snd (fold (full_elmt l2g matStorage) exps (0, Gmat))))"

subsection \<open>Offsets and contributions\<close>

text \<open>
  The values of the loop counters when element \<open>n\<close> is reached, the sizes of its local
  matrix, and what one local entry \<open>(i, j)\<close> of element \<open>n\<close> contributes to a global entry:
  the vocabulary in which the theorems state the assembled matrices.
\<close>

definition cnt_at :: "Expansion list \<Rightarrow> nat \<Rightarrow> nat" where
  "cnt_at exps n = sum_list (map Ncoeffs (take n exps))"

definition lda_at :: "Expansion list \<Rightarrow> nat \<Rightarrow> nat" where
  "lda_at exps n = Columns (Owned (LocMat (exps ! n)))"

definition cntdim1_at :: "Expansion list \<Rightarrow> nat \<Rightarrow> nat" where
  "cntdim1_at exps n = sum_list (map (\<lambda>e. Rows (Owned (LocMat e))) (take n exps))"

definition cntdim2_at :: "Expansion list \<Rightarrow> nat \<Rightarrow> nat" where
  "cntdim2_at exps n = sum_list (map (\<lambda>e. Columns (Owned (LocMat e))) (take n exps))"

definition rows_at :: "Expansion list \<Rightarrow> nat \<Rightarrow> nat" where
  "rows_at exps n = Rows (Owned (LocMat (exps ! n)))"

definition glob_hit ::
  "LocalToGlobalC0ContMap \<Rightarrow> Expansion list \<Rightarrow> nat \<Rightarrow> nat \<Rightarrow> nat \<Rightarrow> int \<Rightarrow> int \<Rightarrow> bool" where
  "glob_hit l2g exps n i j g1 g2 \<longleftrightarrow>
     LocalToGlobalMap l2g ! (cntdim1_at exps n + i) = g1 \<and>
     LocalToGlobalMap l2g ! (cntdim2_at exps n + j) = g2"

definition glob_contrib ::
  "LocalToGlobalC0ContMap \<Rightarrow> Expansion list \<Rightarrow> nat \<Rightarrow> nat \<Rightarrow> nat \<Rightarrow> int \<Rightarrow> int \<Rightarrow> real" where
  "glob_contrib l2g exps n i j g1 g2 =
     (if glob_hit l2g exps n i j g1 g2
      then LocalToGlobalSign l2g ! (cntdim1_at exps n + i) *
           LocalToGlobalSign l2g ! (cntdim2_at exps n + j) *
           scal_elem (LocMat (exps ! n)) i j
      else 0)"

definition free_contrib ::
  "LocalToGlobalC0ContMap \<Rightarrow> Expansion list \<Rightarrow> nat \<Rightarrow> nat \<Rightarrow> nat \<Rightarrow> nat \<Rightarrow> nat \<Rightarrow> real" where
  "free_contrib l2g exps n i j g1 g2 =
     (if LocalToGlobalMap l2g ! (cnt_at exps n + i) - NumGlobalDirBndCoeffs l2g = int g1 \<and>
         LocalToGlobalMap l2g ! (cnt_at exps n + j) - NumGlobalDirBndCoeffs l2g = int g2
      then LocalToGlobalSign l2g ! (cnt_at exps n + i) * LocalToGlobalSign l2g ! (cnt_at exps n + j) *
           scal_elem (LocMat (exps ! n)) i j
      else 0)"

text \<open>The local matrices are symmetric.\<close>

definition sym_local :: "Expansion list \<Rightarrow> bool" where
  "sym_local exps \<longleftrightarrow>
     (\<forall>n<length exps. \<forall>i<lda_at exps n. \<forall>j<lda_at exps n.
        scal_elem (LocMat (exps ! n)) i j = scal_elem (LocMat (exps ! n)) j i)"

text \<open>
  Two lists of elements of the same shapes whose local matrices agree on every entry with
  both its row and its column mapped to a free global index (at or above \<open>NumDirBCs\<close>).
\<close>

definition same_free_entries ::
  "LocalToGlobalC0ContMap \<Rightarrow> Expansion list \<Rightarrow> Expansion list \<Rightarrow> bool" where
  "same_free_entries l2g exps exps' \<longleftrightarrow>
     length exps' = length exps \<and>
     (\<forall>n<length exps.
        Ncoeffs (exps' ! n) = Ncoeffs (exps ! n) \<and> lda_at exps' n = lda_at exps n \<and>
        (\<forall>i<lda_at exps n. \<forall>j<lda_at exps n.
           NumGlobalDirBndCoeffs l2g \<le> LocalToGlobalMap l2g ! (cnt_at exps n + i) \<and>
           NumGlobalDirBndCoeffs l2g \<le> LocalToGlobalMap l2g ! (cnt_at exps n + j) \<longrightarrow>
           scal_elem (LocMat (exps' ! n)) i j = scal_elem (LocMat (exps ! n)) i j))"

text \<open>
  Auxiliary forms of the contributions, with the tests of the loops spelled out as the
  code has them; the proofs go through them.
\<close>

definition full_contrib ::
  "LocalToGlobalC0ContMap \<Rightarrow> MatrixStorage \<Rightarrow> DNekScalMat \<Rightarrow> nat \<Rightarrow> nat \<Rightarrow> nat \<Rightarrow>
   nat \<times> nat \<Rightarrow> real" where
  "full_contrib l2g st loc_mat cnt i j p =
     (let gid1 = LocalToGlobalMap l2g ! (cnt + i) - NumGlobalDirBndCoeffs l2g;
          gid2 = LocalToGlobalMap l2g ! (cnt + j) - NumGlobalDirBndCoeffs l2g
      in if gid1 \<ge> 0 \<and> gid2 \<ge> 0 \<and> (st = eFULL \<or> gid2 \<ge> gid1) \<and>
            slot st (nat gid1) (nat gid2) = p
         then LocalToGlobalSign l2g ! (cnt + i) * LocalToGlobalSign l2g ! (cnt + j) *
              scal_elem loc_mat i j
         else 0)"

definition stored :: "spcoomat \<Rightarrow> int \<times> int \<Rightarrow> real" where
  "stored sp c = (case sp c of None \<Rightarrow> 0 | Some x \<Rightarrow> x)"

definition sparse_hit ::
  "LocalToGlobalC0ContMap \<Rightarrow> bool \<Rightarrow> bool \<Rightarrow> nat \<Rightarrow> nat \<Rightarrow> nat \<Rightarrow> nat \<Rightarrow> int \<times> int \<Rightarrow> bool" where
  "sparse_hit l2g first second cntdim1 cntdim2 i j c \<longleftrightarrow>
     (gid_of l2g first (cntdim1 + i), gid_of l2g second (cntdim2 + j)) = c"

definition sparse_contrib ::
  "LocalToGlobalC0ContMap \<Rightarrow> bool \<Rightarrow> bool \<Rightarrow> DNekScalMat \<Rightarrow> nat \<Rightarrow> nat \<Rightarrow> nat \<Rightarrow> nat \<Rightarrow>
   int \<times> int \<Rightarrow> real" where
  "sparse_contrib l2g first second loc_mat cntdim1 cntdim2 i j c =
     (if sparse_hit l2g first second cntdim1 cntdim2 i j c
      then sign_of l2g first (cntdim1 + i) * sign_of l2g second (cntdim2 + j) * scal_elem loc_mat i j
      else 0)"

section \<open>The iterative solver (\<open>GlobalLinSysIterative::v_SolveLinearSystem\<close>)\<close>

text \<open>
  The collaborators of the solve that are outside \<open>src/\<close> are parameters: the inverse
  preconditioner \<open>M\<close> (as it is once \<open>v_ComputePreconditioner\<close> has run) applied to a
  vector, the virtual \<open>v_DoMatrixMultiply(d_A, p_A)\<close> (the array \<open>p_A\<close> after the call, from
  \<open>d_A\<close> and \<open>p_A\<close> before it), \<open>Vmath::Dot2\<close> and \<open>VDmath::Ddot2\<close> with the
  multiplicity map \<open>m_map + nDir\<close>, the communicator's \<open>AllReduce\<close> on the three exchanged
  values, and the two tolerances of \<open>NekConstants\<close>.
\<close>

record CGEnv =
  precond :: "real list \<Rightarrow> real list"
  DoMatrixMultiply :: "real list \<Rightarrow> real list \<Rightarrow> real list"
  Dot2 :: "nat \<Rightarrow> real list \<Rightarrow> real list \<Rightarrow> real"
  Ddot2 :: "nat \<Rightarrow> real list \<Rightarrow> real list \<Rightarrow> real"
  AllReduce :: "real \<times> real \<times> real \<Rightarrow> real \<times> real \<times> real"
  kNekZeroTol :: real
  kNekIterativeTol :: real

text \<open>
  The calls the solve makes to the operator and to the communicator, in order: the log
  that lets a theorem say which of them happened.
\<close>

datatype event = MatrixMultiply "real list" | Reduce

text \<open>
  The vectors are wrappers of dimension \<open>n = nNonDir\<close> around arrays; their operations
  act on the entries \<open>0 \<le> i < n\<close>.
\<close>

definition vcopy :: "nat \<Rightarrow> real list \<Rightarrow> real list" where
  "vcopy n x = map (\<lambda>i. x ! i) [0..<n]"

definition vplus :: "nat \<Rightarrow> real list \<Rightarrow> real \<Rightarrow> real list \<Rightarrow> real list" where
  "vplus n x a y = map (\<lambda>i. x ! i + a * y ! i) [0..<n]"

definition vminus :: "nat \<Rightarrow> real list \<Rightarrow> real \<Rightarrow> real list \<Rightarrow> real list" where
  "vminus n x a y = map (\<lambda>i. x ! i - a * y ! i) [0..<n]"

text \<open>Writing a wrapper that starts at offset \<open>nDir\<close> of an array.\<close>

definition write_at :: "nat \<Rightarrow> real list \<Rightarrow> real list \<Rightarrow> real list" where
  "write_at off arr v = take off arr @ v @ drop (off + length v) arr"

record CGState =
  out :: "real list"
  r_A :: "real list"
  z_A :: "real list"
  d_A :: "real list"
  p_A :: "real list"
  k_iter :: nat                 \<comment> \<open>the counter \<open>k\<close>\<close>
  calls :: "event list"

text \<open>The values one pass through the loop body computes before its convergence test.\<close>

record CGIter =
  p_new_A :: "real list"
  out_new :: "real list"
  r_new_A :: "real list"
  z_new_A :: "real list"
  beta :: real
  normsq :: real

definition cg_body :: "CGEnv \<Rightarrow> nat \<Rightarrow> nat \<Rightarrow> CGState \<Rightarrow> CGIter" where
  "cg_body env nNonDir nDir st =
     (let p_A' = DoMatrixMultiply env (d_A st) (p_A st);
          d = drop nDir (d_A st);
          p = drop nDir p_A';
          (v0, v1, v2) = AllReduce env (Dot2 env nNonDir d p,
                                        Dot2 env nNonDir (z_A st) (r_A st),
                                        Dot2 env nNonDir (r_A st) (z_A st));
          alpha = v1 / v0;
          out' = vplus nNonDir (out st) alpha d;
          r_new = vminus nNonDir (r_A st) alpha p;
          z_new = vcopy nNonDir (precond env r_new);
          (w0, w1, w2) = AllReduce env (Dot2 env nNonDir r_new z_new / v2,
                                        Dot2 env nNonDir r_new r_new,
                                        v2)
      in \<lparr> p_new_A = p_A', out_new = out', r_new_A = r_new, z_new_A = z_new,
           beta = w0, normsq = w1 \<rparr>)"

definition body_log :: "CGState \<Rightarrow> event list" where
  "body_log st = calls st @ [MatrixMultiply (d_A st), Reduce, Reduce]"

text \<open>The state at the \<open>break\<close>.\<close>

definition cg_exit :: "CGState \<Rightarrow> CGIter \<Rightarrow> CGState" where
  "cg_exit st it = st\<lparr> out := out_new it, p_A := p_new_A it, calls := body_log st \<rparr>"

text \<open>The state after \<open>d = z_new + beta*d; r = r_new; z = z_new; k++\<close>.\<close>

definition cg_next :: "nat \<Rightarrow> nat \<Rightarrow> CGState \<Rightarrow> CGIter \<Rightarrow> CGState" where
  "cg_next nNonDir nDir st it =
     \<lparr> out = out_new it,
       r_A = r_new_A it,
       z_A = z_new_A it,
       d_A = write_at nDir (d_A st)
               (vplus nNonDir (z_new_A it) (beta it) (drop nDir (d_A st))),
       p_A = p_new_A it,
       k_iter = Suc (k_iter st),
       calls = body_log st \<rparr>"

text \<open>
  Modelled from the spec: the macro \<open>ASSERTL1\<close> (declared outside \<open>src/\<close>); a failed
  condition is a fatal error, as the spec's "cap exceeded \<Rightarrow> fatal" says.
\<close>

definition max_iterations_msg :: string where
  "max_iterations_msg = ''Exceeded maximum number of iterations (20000)''"

function cg_loop :: "CGEnv \<Rightarrow> nat \<Rightarrow> nat \<Rightarrow> CGState \<Rightarrow> error + CGState" where
  "cg_loop env nNonDir nDir st =
     (if sqrt (normsq (cg_body env nNonDir nDir st)) < kNekIterativeTol env
      then Inr (cg_exit st (cg_body env nNonDir nDir st))
      else if Suc (k_iter st) < 20000
      then cg_loop env nNonDir nDir (cg_next nNonDir nDir st (cg_body env nNonDir nDir st))
      else Inl (AssertL1 max_iterations_msg))"
  by pat_completeness auto
termination
  by (relation "measure (\<lambda>(env, n, nDir, st). 20000 - k_iter st)") (auto simp: cg_next_def)

declare cg_loop.simps [simp del]

text \<open>
  The state before the loop: \<open>r = in; z = M * r; d = z; k = 0\<close>, all other arrays zero,
  and \<open>out\<close> wrapping the caller's \<open>pOutput\<close> as it comes.
\<close>

definition cg_init :: "CGEnv \<Rightarrow> nat \<Rightarrow> nat \<Rightarrow> nat \<Rightarrow> real list \<Rightarrow> real list \<Rightarrow> CGState" where
  "cg_init env nGlobal nNonDir nDir pInput pOutput =
     (let r = vcopy nNonDir pInput;
          z = vcopy nNonDir (precond env r)
      in \<lparr> out = pOutput, r_A = r, z_A = z,
           d_A = write_at nDir (replicate nGlobal 0) z,
           p_A = replicate nGlobal 0,
           k_iter = 0, calls = [] \<rparr>)"

text \<open>
  One full pass through the loop body without \<open>break\<close>, and the test that ends the loop;
  the theorems speak of the passes of a run through them.
\<close>

definition cg_step :: "CGEnv \<Rightarrow> nat \<Rightarrow> nat \<Rightarrow> CGState \<Rightarrow> CGState" where
  "cg_step env nNonDir nDir st = cg_next nNonDir nDir st (cg_body env nNonDir nDir st)"

definition converged :: "CGEnv \<Rightarrow> nat \<Rightarrow> nat \<Rightarrow> CGState \<Rightarrow> bool" where
  "converged env nNonDir nDir st \<longleftrightarrow>
     sqrt (normsq (cg_body env nNonDir nDir st)) < kNekIterativeTol env"

text \<open>
  The result is the caller's array \<open>pOutput\<close> after the call, with the log of the calls
  made; the first \<open>nNonDir\<close> entries of the array are the ones the solve writes.
\<close>

definition SolveLinearSystem ::
  "CGEnv \<Rightarrow> int \<Rightarrow> real list \<Rightarrow> real list \<Rightarrow> int \<Rightarrow> error + real list \<times> event list" where
  "SolveLinearSystem env nGlobal pInput pOutput nDir =
     (let nNonDir = nat (nGlobal - nDir);
          st = cg_init env (nat nGlobal) nNonDir (nat nDir) pInput pOutput
      in if Ddot2 env nNonDir (r_A st) (r_A st) < kNekZeroTol env
         then Inr (write_at 0 pOutput (replicate nNonDir 0), calls st)
         else (case cg_loop env nNonDir (nat nDir) st of
                 Inl e \<Rightarrow> Inl e
               | Inr st' \<Rightarrow> Inr (write_at 0 pOutput (vcopy nNonDir (out st')), calls st')))"

text \<open>
  The passes of a run: the state at the start of pass \<open>j\<close> (counted from 0), whether the
  residual test at the end of that pass succeeds, and the test before the loop.
\<close>

definition nNonDir_of :: "int \<Rightarrow> int \<Rightarrow> nat" where
  "nNonDir_of nGlobal nDir = nat (nGlobal - nDir)"

definition cg_pass :: "CGEnv \<Rightarrow> int \<Rightarrow> int \<Rightarrow> real list \<Rightarrow> real list \<Rightarrow> nat \<Rightarrow> CGState" where
  "cg_pass env nGlobal nDir pInput pOutput j =
     (cg_step env (nNonDir_of nGlobal nDir) (nat nDir) ^^ j)
       (cg_init env (nat nGlobal) (nNonDir_of nGlobal nDir) (nat nDir) pInput pOutput)"

definition residual_small :: "CGEnv \<Rightarrow> int \<Rightarrow> int \<Rightarrow> real list \<Rightarrow> real list \<Rightarrow> nat \<Rightarrow> bool" where
  "residual_small env nGlobal nDir pInput pOutput j \<longleftrightarrow>
     converged env (nNonDir_of nGlobal nDir) (nat nDir) (cg_pass env nGlobal nDir pInput pOutput j)"

definition initial_residual_zero :: "CGEnv \<Rightarrow> int \<Rightarrow> int \<Rightarrow> real list \<Rightarrow> bool" where
  "initial_residual_zero env nGlobal nDir pInput \<longleftrightarrow>
     Ddot2 env (nNonDir_of nGlobal nDir) (vcopy (nNonDir_of nGlobal nDir) pInput)
       (vcopy (nNonDir_of nGlobal nDir) pInput) < kNekZeroTol env"

text \<open>Two solver states that agree except for an offset \<open>c\<close> on the output vector.\<close>

definition same_but_out :: "nat \<Rightarrow> real list \<Rightarrow> CGState \<Rightarrow> CGState \<Rightarrow> bool" where
  "same_but_out n c st1 st2 \<longleftrightarrow>
     r_A st1 = r_A st2 \<and> z_A st1 = z_A st2 \<and> d_A st1 = d_A st2 \<and> p_A st1 = p_A st2 \<and>
     k_iter st1 = k_iter st2 \<and> calls st1 = calls st2 \<and>
     (\<forall>i<n. out st1 ! i = c ! i + out st2 ! i)"

section \<open>Concrete inputs\<close>

text \<open>Small inputs on which the theorems below are evaluated.\<close>

definition ex_coupled :: CoupledLinearNS where
  "ex_coupled = \<lparr> nvel = 2, nel = 1, singleMode = False, Offset_Elmt_Id = (\<lambda>n. n),
                  vel_NumBndryCoeffs = (\<lambda>_. 3), vel_Ncoeffs = (\<lambda>_. 6), p_Ncoeffs = (\<lambda>_. 3) \<rparr>"

definition ex_tet :: TetExp where
  "ex_tet = \<lparr> m_ncoeffs = 2, NumBndryCoeffs = 1, Gtype = eRegular,
             BoundaryMap = [0], InteriorMap = [1],
             LocMatrix = \<lparr> Scale = 1, Owned = \<lparr> Rows = 2, Columns = 2, Elems = [[4, 2], [2, 2]] \<rparr> \<rparr>,
             StdStaticCondMatrix = (identity 0, identity 0, identity 0, identity 0) \<rparr>"

definition ex_Invert :: "NekMat \<Rightarrow> NekMat option" where
  "ex_Invert M = (case Elems M of
       [[x]] \<Rightarrow> if x = 0 then None else Some \<lparr> Rows = 1, Columns = 1, Elems = [[1 / x]] \<rparr>
     | _ \<Rightarrow> None)"

definition ex_tet0 :: TetExp where
  "ex_tet0 = \<lparr> m_ncoeffs = 2, NumBndryCoeffs = 2, Gtype = eRegular,
             BoundaryMap = [0, 1], InteriorMap = [],
             LocMatrix = \<lparr> Scale = 1, Owned = \<lparr> Rows = 2, Columns = 2, Elems = [[4, 2], [2, 2]] \<rparr> \<rparr>,
             StdStaticCondMatrix = (identity 0, identity 0, identity 0, identity 0) \<rparr>"

definition ex_dot :: "nat \<Rightarrow> real list \<Rightarrow> real list \<Rightarrow> real" where
  "ex_dot n x y = (\<Sum>i\<leftarrow>[0..<n]. x ! i * y ! i)"

definition ex_env :: CGEnv where
  "ex_env = \<lparr> precond = (\<lambda>v. v), DoMatrixMultiply = (\<lambda>d p. map (\<lambda>x. 2 * x) d),
              Dot2 = ex_dot, Ddot2 = ex_dot, AllReduce = (\<lambda>v. v),
              kNekZeroTol = 1 / 1000, kNekIterativeTol = 1 / 1000 \<rparr>"

definition ex_stall_env :: CGEnv where
  "ex_stall_env = \<lparr> precond = (\<lambda>v. [0]), DoMatrixMultiply = (\<lambda>d p. d),
              Dot2 = ex_dot, Ddot2 = ex_dot, AllReduce = (\<lambda>v. v),
              kNekZeroTol = 1 / 1000, kNekIterativeTol = 1 / 1000 \<rparr>"

definition ex_l2g :: LocalToGlobalC0ContMap where
  "ex_l2g = \<lparr> NumGlobalCoeffs = 3, NumGlobalDirBndCoeffs = 1, FullSystemBandWidth = 1,
              LocalToGlobalMap = [0, 1, 1, 2], LocalToGlobalSign = [1, 1, -1, 1] \<rparr>"

definition ex_l2g_wide :: LocalToGlobalC0ContMap where
  "ex_l2g_wide = \<lparr> NumGlobalCoeffs = 10, NumGlobalDirBndCoeffs = 1, FullSystemBandWidth = 1,
              LocalToGlobalMap = [0, 1, 1, 2], LocalToGlobalSign = [1, 1, -1, 1] \<rparr>"

definition ex_loc :: "real list list \<Rightarrow> Expansion" where
  "ex_loc rows = \<lparr> Ncoeffs = 2, LocMat = \<lparr> Scale = 1, Owned = \<lparr> Rows = 2, Columns = 2, Elems = rows \<rparr> \<rparr> \<rparr>"

definition ex_exps :: "Expansion list" where
  "ex_exps = [ex_loc [[2, -1], [-1, 2]], ex_loc [[2, -1], [-1, 2]]]"

definition ex_exps' :: "Expansion list" where
  "ex_exps' = [ex_loc [[7, 8], [9, 2]], ex_loc [[2, -1], [-1, 2]]]"

section \<open>Theorems\<close>

subsection \<open>Coupled solver block sizes\<close>

lemma nz_loc_cases: "nz_loc s h = 1 \<or> nz_loc s h = 2"
  by (simp add: nz_loc_def)

lemma unat_word_of_int_small:
  assumes "0 \<le> k" and "k < 2 ^ 32"
  shows "unat (word_of_int k :: uint) = nat k"
proof -
  have "uint (word_of_int k :: uint) = k mod 2 ^ 32"
    by (simp add: uint_word_of_int)
  also have "\<dots> = k"
    using assms by simp
  finally show ?thesis
    by (simp add: unat_eq_nat_uint)
qed

lemma p_sizes_nat:
  assumes n: "n < nel s"
    and p1: "1 \<le> p_Ncoeffs s (Offset_Elmt_Id s n)"
    and pb: "p_Ncoeffs s (Offset_Elmt_Id s n) * nz_loc s h < 2 ^ 32"
  shows "unat (nsize_p (SetUpBlockSizes s h) ! n) =
           nat (p_Ncoeffs s (Offset_Elmt_Id s n) * nz_loc s h)"
    and "unat (nsize_p_m1 (SetUpBlockSizes s h) ! n) =
           nat ((p_Ncoeffs s (Offset_Elmt_Id s n) - 1) * nz_loc s h)"
proof -
  let ?nz = "nz_loc s h" and ?pn = "p_Ncoeffs s (Offset_Elmt_Id s n)"
  have nzpos: "0 < ?nz" using nz_loc_cases [of s h] by auto
  have p_eq: "nsize_p (SetUpBlockSizes s h) ! n = word_of_int (?pn * ?nz)"
    using n by (simp add: SetUpBlockSizes_def Let_def p_size_def)
  have pm_eq: "nsize_p_m1 (SetUpBlockSizes s h) ! n = word_of_int ((?pn - 1) * ?nz)"
    using n by (simp add: SetUpBlockSizes_def Let_def p_m1_size_def p_size_def algebra_simps)
  have a: "0 \<le> ?pn * ?nz" using p1 nzpos by simp
  have b: "0 \<le> (?pn - 1) * ?nz" using p1 nzpos by simp
  have c: "(?pn - 1) * ?nz < 2 ^ 32" using pb nzpos by (simp add: algebra_simps)
  show "unat (nsize_p (SetUpBlockSizes s h) ! n) = nat (?pn * ?nz)"
    unfolding p_eq by (rule unat_word_of_int_small [OF a pb])
  show "unat (nsize_p_m1 (SetUpBlockSizes s h) ! n) = nat ((?pn - 1) * ?nz)"
    unfolding pm_eq by (rule unat_word_of_int_small [OF b c])
qed

lemma bndry_sizes_nat:
  assumes n: "n < nel s"
    and b0: "0 \<le> nvel s * vel_NumBndryCoeffs s (Offset_Elmt_Id s n)"
    and bb: "nvel s * vel_NumBndryCoeffs s (Offset_Elmt_Id s n) * nz_loc s h + nz_loc s h < 2 ^ 32"
  shows "unat (nsize_bndry_p1 (SetUpBlockSizes s h) ! n) =
           unat (nsize_bndry (SetUpBlockSizes s h) ! n) + nat (nz_loc s h)"
proof -
  let ?nz = "nz_loc s h"
  let ?b = "nvel s * vel_NumBndryCoeffs s (Offset_Elmt_Id s n) * ?nz"
  have nzpos: "0 < ?nz" using nz_loc_cases [of s h] by auto
  have a: "0 \<le> ?b" using b0 nzpos by simp
  have a': "?b < 2 ^ 32" using bb nzpos by simp
  have b_eq: "nsize_bndry (SetUpBlockSizes s h) ! n = word_of_int ?b"
    using n by (simp add: SetUpBlockSizes_def Let_def bndry_size_def)
  have b1_eq: "nsize_bndry_p1 (SetUpBlockSizes s h) ! n = word_of_int (?b + ?nz)"
    using n by (simp add: SetUpBlockSizes_def Let_def bndry_p1_size_def bndry_size_def)
  have c: "0 \<le> ?b + ?nz" using a nzpos by simp
  have u1: "unat (nsize_bndry (SetUpBlockSizes s h) ! n) = nat ?b"
    unfolding b_eq by (rule unat_word_of_int_small [OF a a'])
  have u2: "unat (nsize_bndry_p1 (SetUpBlockSizes s h) ! n) = nat (?b + ?nz)"
    unfolding b1_eq by (rule unat_word_of_int_small [OF c bb])
  show ?thesis
    using u1 u2 a nzpos by (simp add: nat_add_distrib)
qed

text \<open>
  Claim C7. For every element \<open>n\<close> of the coupled velocity-pressure solver, the enlarged
  boundary block has size \<open>nsize_bndry[n] + nz_loc\<close> and the remaining pressure block has size
  \<open>nsize_p[n] - nz_loc\<close>, where \<open>nz_loc\<close> (1 or 2) is the number of local z-planes: one
  pressure mode per element and per plane moves into the boundary block. The equalities
  hold in the code's \<open>unsigned int\<close> arithmetic; read as natural numbers they hold whenever
  the element has at least one pressure mode and the sizes fit in 32 bits, and then the
  subtraction does not wrap.
\<close>

theorem coupled_block_sizes:
  assumes n: "n < nel s"
  shows "(nz_loc s h = 1 \<or> nz_loc s h = 2) \<and>
         nsize_bndry_p1 (SetUpBlockSizes s h) ! n =
           nsize_bndry (SetUpBlockSizes s h) ! n + word_of_int (nz_loc s h) \<and>
         nsize_p_m1 (SetUpBlockSizes s h) ! n =
           nsize_p (SetUpBlockSizes s h) ! n - word_of_int (nz_loc s h) \<and>
         (1 \<le> p_Ncoeffs s (Offset_Elmt_Id s n) \<and>
          p_Ncoeffs s (Offset_Elmt_Id s n) * nz_loc s h < 2 ^ 32 \<longrightarrow>
            nat (nz_loc s h) \<le> unat (nsize_p (SetUpBlockSizes s h) ! n) \<and>
            unat (nsize_p_m1 (SetUpBlockSizes s h) ! n) =
              unat (nsize_p (SetUpBlockSizes s h) ! n) - nat (nz_loc s h)) \<and>
         (0 \<le> nvel s * vel_NumBndryCoeffs s (Offset_Elmt_Id s n) \<and>
          nvel s * vel_NumBndryCoeffs s (Offset_Elmt_Id s n) * nz_loc s h + nz_loc s h < 2 ^ 32 \<longrightarrow>
            unat (nsize_bndry_p1 (SetUpBlockSizes s h) ! n) =
              unat (nsize_bndry (SetUpBlockSizes s h) ! n) + nat (nz_loc s h))"
proof (intro conjI impI)
  show "nz_loc s h = 1 \<or> nz_loc s h = 2" by (rule nz_loc_cases)
  show "nsize_bndry_p1 (SetUpBlockSizes s h) ! n =
          nsize_bndry (SetUpBlockSizes s h) ! n + word_of_int (nz_loc s h)"
    using n by (simp add: SetUpBlockSizes_def Let_def bndry_p1_size_def)
  show "nsize_p_m1 (SetUpBlockSizes s h) ! n =
          nsize_p (SetUpBlockSizes s h) ! n - word_of_int (nz_loc s h)"
    using n by (simp add: SetUpBlockSizes_def Let_def p_m1_size_def)
next
  assume h: "1 \<le> p_Ncoeffs s (Offset_Elmt_Id s n) \<and>
             p_Ncoeffs s (Offset_Elmt_Id s n) * nz_loc s h < 2 ^ 32"
  let ?nz = "nz_loc s h" and ?pn = "p_Ncoeffs s (Offset_Elmt_Id s n)"
  have nzpos: "0 < ?nz" using nz_loc_cases [of s h] by auto
  have d: "?nz \<le> ?pn * ?nz" using h nzpos by (simp add: mult_le_cancel_right1)
  have e: "nat ((?pn - 1) * ?nz) = nat (?pn * ?nz) - nat ?nz"
    using d nzpos by (simp add: algebra_simps nat_diff_distrib)
  note u = p_sizes_nat [OF n conjunct1 [OF h] conjunct2 [OF h]]
  show "nat ?nz \<le> unat (nsize_p (SetUpBlockSizes s h) ! n)"
    using u(1) d nzpos by (simp add: nat_le_eq_zle)
  show "unat (nsize_p_m1 (SetUpBlockSizes s h) ! n) =
          unat (nsize_p (SetUpBlockSizes s h) ! n) - nat ?nz"
    using u e by simp
next
  assume h: "0 \<le> nvel s * vel_NumBndryCoeffs s (Offset_Elmt_Id s n) \<and>
     nvel s * vel_NumBndryCoeffs s (Offset_Elmt_Id s n) * nz_loc s h + nz_loc s h < 2 ^ 32"
  show "unat (nsize_bndry_p1 (SetUpBlockSizes s h) ! n) =
          unat (nsize_bndry (SetUpBlockSizes s h) ! n) + nat (nz_loc s h)"
    by (rule bndry_sizes_nat [OF n conjunct1 [OF h] conjunct2 [OF h]])
qed

theorem coupled_block_sizes_witness:
  "(0::nat) < nel ex_coupled \<and>
   nsize_bndry (SetUpBlockSizes ex_coupled 0) ! 0 = 6 \<and>
   nsize_bndry_p1 (SetUpBlockSizes ex_coupled 0) ! 0 = 7 \<and>
   nsize_p (SetUpBlockSizes ex_coupled 0) ! 0 = 3 \<and>
   nsize_p_m1 (SetUpBlockSizes ex_coupled 0) ! 0 = 2 \<and>
   unat (nsize_p_m1 (SetUpBlockSizes ex_coupled 0) ! 0) = 2"
proof -
  have n: "0 < nel ex_coupled" by (simp add: ex_coupled_def)
  show ?thesis
    using coupled_block_sizes [OF n, of 0] n
    by (simp add: ex_coupled_def SetUpBlockSizes_def nz_loc_def bndry_size_def bndry_p1_size_def
        p_size_def p_m1_size_def)
qed

subsection \<open>Static condensation\<close>

text \<open>
  Claim C1. On the branch that condenses the local matrix itself (Laplacian, Helmholtz,
  or a deformed element), for an element with its geometric information set up and with at
  least one interior mode, whose interior
  block \<open>D\<close> is invertible and inverted by \<open>Invert\<close>, the function returns the four blocks:
  block (0,0) is the Schur complement \<open>A - (B\<cdot>D\<inverse>)\<cdot>C\<close>, block (0,1) is \<open>B\<cdot>D\<inverse>\<close>, block (1,0)
  is \<open>C\<close> and block (1,1) is \<open>D\<inverse>\<close>, each with scale factor 1, where \<open>A\<close>, \<open>B\<close>, \<open>C\<close>,
  \<open>D\<close> are gathered from the local matrix through the boundary and interior maps.
\<close>

theorem static_condensation_blocks:
  assumes geom: "Gtype e \<noteq> eNoGeomType"
    and path: "mtype = eLaplacian \<or> mtype = eHelmholtz \<or> Gtype e = eDeformed"
    and nint: "NumBndryCoeffs e < m_ncoeffs e"
    and inv: "Invert (blockD e) = Some Dinv"
    and isinv: "is_inverse (blockD e) Dinv"
  shows "\<exists>r. CreateStaticCondMatrix Invert e mtype = Inr r \<and>
           Block00 r = \<lparr> Scale = 1, Owned = mat_sub (blockA e) (mat_mul (mat_mul (blockB e) Dinv) (blockC e)) \<rparr> \<and>
           Block01 r = \<lparr> Scale = 1, Owned = mat_mul (blockB e) Dinv \<rparr> \<and>
           Block10 r = \<lparr> Scale = 1, Owned = blockC e \<rparr> \<and>
           Block11 r = \<lparr> Scale = 1, Owned = Dinv \<rparr> \<and>
           is_inverse (blockD e) (Owned (Block11 r))"
proof -
  have "CreateStaticCondMatrix Invert e mtype = UseLocRegionsMatrix Invert e 1"
    using geom path by (auto simp: CreateStaticCondMatrix_def)
  then show ?thesis
    using nint inv isinv
    by (simp add: UseLocRegionsMatrix_def Let_def blockA_def blockB_def blockC_def blockD_def)
qed

lemma ex_blocks:
  "blockA ex_tet = \<lparr> Rows = 1, Columns = 1, Elems = [[4]] \<rparr>"
  "blockB ex_tet = \<lparr> Rows = 1, Columns = 1, Elems = [[2]] \<rparr>"
  "blockC ex_tet = \<lparr> Rows = 1, Columns = 1, Elems = [[2]] \<rparr>"
  "blockD ex_tet = \<lparr> Rows = 1, Columns = 1, Elems = [[2]] \<rparr>"
  by (simp_all add: blockA_def blockB_def blockC_def blockD_def ex_tet_def gather_def mk_mat_def
      scal_elem_def elem_def)

theorem static_condensation_blocks_witness:
  "\<exists>r. CreateStaticCondMatrix ex_Invert ex_tet eHelmholtz = Inr r \<and>
       Block00 r = \<lparr> Scale = 1, Owned = \<lparr> Rows = 1, Columns = 1, Elems = [[2]] \<rparr> \<rparr> \<and>
       Block01 r = \<lparr> Scale = 1, Owned = \<lparr> Rows = 1, Columns = 1, Elems = [[1]] \<rparr> \<rparr> \<and>
       Block10 r = \<lparr> Scale = 1, Owned = \<lparr> Rows = 1, Columns = 1, Elems = [[2]] \<rparr> \<rparr> \<and>
       Block11 r = \<lparr> Scale = 1, Owned = \<lparr> Rows = 1, Columns = 1, Elems = [[1 / 2]] \<rparr> \<rparr>"
proof -
  let ?Dinv = "\<lparr> Rows = 1, Columns = 1, Elems = [[1 / 2 :: real]] \<rparr>"
  have p: "eHelmholtz = eLaplacian \<or> eHelmholtz = eHelmholtz \<or> Gtype ex_tet = eDeformed" by simp
  have g: "Gtype ex_tet \<noteq> eNoGeomType" by (simp add: ex_tet_def)
  have n: "NumBndryCoeffs ex_tet < m_ncoeffs ex_tet" by (simp add: ex_tet_def)
  have i: "ex_Invert (blockD ex_tet) = Some ?Dinv" by (simp add: ex_blocks ex_Invert_def)
  have ii: "is_inverse (blockD ex_tet) ?Dinv"
    by (simp add: ex_blocks is_inverse_def mat_mul_def identity_def mk_mat_def elem_def)
  show ?thesis
    using static_condensation_blocks [of ex_tet eHelmholtz ex_Invert ?Dinv, OF g p n i ii]
    by (auto simp: ex_blocks mat_mul_def mat_sub_def mk_mat_def elem_def)
qed

lemma mk_mat_no_columns: "mk_mat r 0 f = \<lparr> Rows = r, Columns = 0, Elems = replicate r [] \<rparr>"
  by (simp add: mk_mat_def map_replicate_const)

lemma mk_mat_no_rows: "mk_mat 0 c f = \<lparr> Rows = 0, Columns = c, Elems = [] \<rparr>"
  by (simp add: mk_mat_def)

text \<open>
  Claim C9. For an element with its geometric information set up and without interior
  modes (\<open>nint = 0\<close>) the function never calls
  the inversion: its result is the one obtained with an inversion routine that always
  fails, and it is never an error. On the branch that condenses the local matrix itself,
  block (0,0) is the gathered boundary block \<open>A\<close> unchanged, and the blocks \<open>B\<close>, \<open>C\<close>,
  \<open>D\<close> are empty (\<open>nbdry x 0\<close>, \<open>0 x nbdry\<close>, \<open>0 x 0\<close>).
\<close>

theorem no_interior_modes:
  assumes geom: "Gtype e \<noteq> eNoGeomType"
    and nint: "m_ncoeffs e = NumBndryCoeffs e"
  shows "CreateStaticCondMatrix Invert e mtype = CreateStaticCondMatrix (\<lambda>D. None) e mtype \<and>
         (\<exists>r. CreateStaticCondMatrix Invert e mtype = Inr r) \<and>
         (mtype = eLaplacian \<or> mtype = eHelmholtz \<or> Gtype e = eDeformed \<longrightarrow>
            CreateStaticCondMatrix Invert e mtype =
              Inr \<lparr> Block00 = \<lparr> Scale = 1, Owned = blockA e \<rparr>,
                    Block01 = \<lparr> Scale = 1, Owned = \<lparr> Rows = nat (NumBndryCoeffs e), Columns = 0,
                                                    Elems = replicate (nat (NumBndryCoeffs e)) [] \<rparr> \<rparr>,
                    Block10 = \<lparr> Scale = 1, Owned = \<lparr> Rows = 0, Columns = nat (NumBndryCoeffs e),
                                                    Elems = [] \<rparr> \<rparr>,
                    Block11 = \<lparr> Scale = 1, Owned = \<lparr> Rows = 0, Columns = 0, Elems = [] \<rparr> \<rparr> \<rparr>)"
  using geom nint
  by (auto simp: CreateStaticCondMatrix_def UseLocRegionsMatrix_def UseStdRegionsMatrix_def Let_def
      blockA_def gather_def mk_mat_no_columns mk_mat_no_rows split_beta)

theorem no_interior_modes_witness:
  "Gtype ex_tet0 \<noteq> eNoGeomType \<and> m_ncoeffs ex_tet0 = NumBndryCoeffs ex_tet0 \<and>
   CreateStaticCondMatrix (\<lambda>D. None) ex_tet0 eLaplacian =
     Inr \<lparr> Block00 = \<lparr> Scale = 1, Owned = \<lparr> Rows = 2, Columns = 2, Elems = [[4, 2], [2, 2]] \<rparr> \<rparr>,
           Block01 = \<lparr> Scale = 1, Owned = \<lparr> Rows = 2, Columns = 0, Elems = [[], []] \<rparr> \<rparr>,
           Block10 = \<lparr> Scale = 1, Owned = \<lparr> Rows = 0, Columns = 2, Elems = [] \<rparr> \<rparr>,
           Block11 = \<lparr> Scale = 1, Owned = \<lparr> Rows = 0, Columns = 0, Elems = [] \<rparr> \<rparr> \<rparr>"
proof -
  have n: "m_ncoeffs ex_tet0 = NumBndryCoeffs ex_tet0" by (simp add: ex_tet0_def)
  have g: "Gtype ex_tet0 \<noteq> eNoGeomType" by (simp add: ex_tet0_def)
  have A: "blockA ex_tet0 = \<lparr> Rows = 2, Columns = 2, Elems = [[4, 2], [2, 2]] \<rparr>"
    by code_simp
  have nb: "nat (NumBndryCoeffs ex_tet0) = 2" by (simp add: ex_tet0_def)
  show ?thesis
    using no_interior_modes [OF g n, of "\<lambda>D. None" eLaplacian] g n
    by (simp add: A nb numeral_2_eq_2)
qed


subsection \<open>The iterative solver\<close>

lemma k_iter_cg_step: "k_iter (cg_step env n nd st) = Suc (k_iter st)"
  by (simp add: cg_step_def cg_next_def)

lemma cg_loop_converges_at:
  "k_iter st + j < 20000 \<Longrightarrow> converged env n nd ((cg_step env n nd ^^ j) st) \<Longrightarrow>
   (\<forall>i<j. \<not> converged env n nd ((cg_step env n nd ^^ i) st)) \<Longrightarrow>
   cg_loop env n nd st =
     Inr (cg_exit ((cg_step env n nd ^^ j) st) (cg_body env n nd ((cg_step env n nd ^^ j) st)))"
proof (induction j arbitrary: st)
  case 0
  then show ?case
    by (subst cg_loop.simps) (simp add: converged_def)
next
  case (Suc j)
  have nc: "\<not> converged env n nd st"
    using Suc.prems(3) by (metis funpow_0 zero_less_Suc)
  have kk: "Suc (k_iter st) < 20000" using Suc.prems(1) by simp
  have step: "cg_loop env n nd st = cg_loop env n nd (cg_step env n nd st)"
    using nc kk by (subst cg_loop.simps) (simp add: converged_def cg_step_def)
  have a: "k_iter (cg_step env n nd st) + j < 20000"
    using Suc.prems(1) by (simp add: k_iter_cg_step)
  have b: "converged env n nd ((cg_step env n nd ^^ j) (cg_step env n nd st))"
    using Suc.prems(2) by (simp add: funpow_swap1)
  have c: "\<forall>i<j. \<not> converged env n nd ((cg_step env n nd ^^ i) (cg_step env n nd st))"
  proof (intro allI impI)
    fix i assume "i < j"
    then have "\<not> converged env n nd ((cg_step env n nd ^^ Suc i) st)"
      using Suc.prems(3) by (meson Suc_mono)
    then show "\<not> converged env n nd ((cg_step env n nd ^^ i) (cg_step env n nd st))"
      by (simp add: funpow_swap1)
  qed
  show ?case
    using Suc.IH [OF a b c] step by (simp add: funpow_swap1)
qed

lemma cg_loop_cap:
  "k_iter st < 20000 \<Longrightarrow>
   (\<forall>j. k_iter st + j < 20000 \<longrightarrow> \<not> converged env n nd ((cg_step env n nd ^^ j) st)) \<Longrightarrow>
   cg_loop env n nd st = Inl (AssertL1 max_iterations_msg)"
proof (induction "20000 - k_iter st" arbitrary: st)
  case 0
  then show ?case by simp
next
  case (Suc m)
  have nc: "\<not> converged env n nd st"
    using Suc.prems(2) [rule_format, of 0] Suc.prems(1) by simp
  show ?case
  proof (cases "Suc (k_iter st) < 20000")
    case False
    then show ?thesis
      using nc by (subst cg_loop.simps) (simp add: converged_def)
  next
    case True
    have step: "cg_loop env n nd st = cg_loop env n nd (cg_step env n nd st)"
      using nc True by (subst cg_loop.simps) (simp add: converged_def cg_step_def)
    have m: "m = 20000 - k_iter (cg_step env n nd st)"
      using Suc.hyps(2) by (simp add: k_iter_cg_step)
    have k': "k_iter (cg_step env n nd st) < 20000"
      using True by (simp add: k_iter_cg_step)
    have all: "\<forall>j. k_iter (cg_step env n nd st) + j < 20000 \<longrightarrow>
                 \<not> converged env n nd ((cg_step env n nd ^^ j) (cg_step env n nd st))"
    proof (intro allI impI)
      fix j assume "k_iter (cg_step env n nd st) + j < 20000"
      then have "k_iter st + Suc j < 20000" by (simp add: k_iter_cg_step)
      then have "\<not> converged env n nd ((cg_step env n nd ^^ Suc j) st)"
        using Suc.prems(2) by blast
      then show "\<not> converged env n nd ((cg_step env n nd ^^ j) (cg_step env n nd st))"
        by (simp add: funpow_swap1)
    qed
    show ?thesis
      using Suc.hyps(1) [OF m k' all] step by simp
  qed
qed


lemma solve_unfold:
  "\<not> initial_residual_zero env nGlobal nDir pInput \<Longrightarrow>
   SolveLinearSystem env nGlobal pInput pOutput nDir =
     (case cg_loop env (nNonDir_of nGlobal nDir) (nat nDir) (cg_pass env nGlobal nDir pInput pOutput 0) of
        Inl e \<Rightarrow> Inl e
      | Inr st' \<Rightarrow> Inr (write_at 0 pOutput (vcopy (nNonDir_of nGlobal nDir) (out st')), calls st'))"
  by (simp add: SolveLinearSystem_def Let_def initial_residual_zero_def nNonDir_of_def cg_pass_def
      cg_init_def split: sum.split)

lemma k_iter_pass0: "k_iter (cg_pass env nGlobal nDir pInput pOutput 0) = 0"
  by (simp add: cg_pass_def cg_init_def Let_def)

lemma cg_pass_funpow:
  "(cg_step env (nNonDir_of nGlobal nDir) (nat nDir) ^^ j) (cg_pass env nGlobal nDir pInput pOutput 0)
     = cg_pass env nGlobal nDir pInput pOutput j"
  by (simp add: cg_pass_def)

lemma solve_converges_at:
  assumes ne: "\<not> initial_residual_zero env nGlobal nDir pInput"
    and j: "j < 20000"
    and small: "residual_small env nGlobal nDir pInput pOutput j"
    and first: "\<forall>i<j. \<not> residual_small env nGlobal nDir pInput pOutput i"
  shows "SolveLinearSystem env nGlobal pInput pOutput nDir =
           Inr (write_at 0 pOutput
                  (vcopy (nNonDir_of nGlobal nDir)
                     (out_new (cg_body env (nNonDir_of nGlobal nDir) (nat nDir)
                                 (cg_pass env nGlobal nDir pInput pOutput j)))),
                body_log (cg_pass env nGlobal nDir pInput pOutput j))"
proof -
  let ?n = "nNonDir_of nGlobal nDir" and ?nd = "nat nDir"
  let ?st = "cg_pass env nGlobal nDir pInput pOutput 0"
  have a: "k_iter ?st + j < 20000" using j by (simp add: k_iter_pass0)
  have b: "converged env ?n ?nd ((cg_step env ?n ?nd ^^ j) ?st)"
    using small by (simp add: cg_pass_funpow residual_small_def)
  have c: "\<forall>i<j. \<not> converged env ?n ?nd ((cg_step env ?n ?nd ^^ i) ?st)"
    using first by (simp add: cg_pass_funpow residual_small_def)
  have "cg_loop env ?n ?nd ?st =
          Inr (cg_exit (cg_pass env nGlobal nDir pInput pOutput j)
                 (cg_body env ?n ?nd (cg_pass env nGlobal nDir pInput pOutput j)))"
    using cg_loop_converges_at [OF a b c] by (simp add: cg_pass_funpow)
  then show ?thesis
    by (simp add: solve_unfold [OF ne] cg_exit_def)
qed

lemma solve_cap:
  assumes ne: "\<not> initial_residual_zero env nGlobal nDir pInput"
    and never: "\<forall>i<20000. \<not> residual_small env nGlobal nDir pInput pOutput i"
  shows "SolveLinearSystem env nGlobal pInput pOutput nDir = Inl (AssertL1 max_iterations_msg)"
proof -
  let ?n = "nNonDir_of nGlobal nDir" and ?nd = "nat nDir"
  let ?st = "cg_pass env nGlobal nDir pInput pOutput 0"
  have a: "k_iter ?st < 20000" by (simp add: k_iter_pass0)
  have b: "\<forall>j. k_iter ?st + j < 20000 \<longrightarrow> \<not> converged env ?n ?nd ((cg_step env ?n ?nd ^^ j) ?st)"
    using never by (simp add: cg_pass_funpow residual_small_def k_iter_pass0)
  have "cg_loop env ?n ?nd ?st = Inl (AssertL1 max_iterations_msg)"
    by (rule cg_loop_cap [OF a b])
  then show ?thesis
    by (simp add: solve_unfold [OF ne])
qed

text \<open>
  Claim C3. When the initial residual is not numerically zero, the solve ends at the first
  pass \<open>j < 20000\<close> whose new residual has norm below \<open>kNekIterativeTol\<close>, returning the
  output vector of that pass; when none of the first 20000 passes passes that test, the
  solve fails with the assertion "Exceeded maximum number of iterations (20000)"; and so it
  returns a result only if one of those passes has converged.
\<close>

theorem cg_terminates_or_fails:
  assumes ne: "\<not> initial_residual_zero env nGlobal nDir pInput"
  shows "(j < 20000 \<and> residual_small env nGlobal nDir pInput pOutput j \<and>
          (\<forall>i<j. \<not> residual_small env nGlobal nDir pInput pOutput i) \<longrightarrow>
            SolveLinearSystem env nGlobal pInput pOutput nDir =
              Inr (write_at 0 pOutput
                     (vcopy (nNonDir_of nGlobal nDir)
                        (out_new (cg_body env (nNonDir_of nGlobal nDir) (nat nDir)
                                    (cg_pass env nGlobal nDir pInput pOutput j)))),
                   body_log (cg_pass env nGlobal nDir pInput pOutput j))) \<and>
         ((\<forall>i<20000. \<not> residual_small env nGlobal nDir pInput pOutput i) \<longrightarrow>
            SolveLinearSystem env nGlobal pInput pOutput nDir = Inl (AssertL1 max_iterations_msg)) \<and>
         ((\<exists>res. SolveLinearSystem env nGlobal pInput pOutput nDir = Inr res) \<longrightarrow>
            (\<exists>i<20000. residual_small env nGlobal nDir pInput pOutput i))"
proof (intro conjI impI)
  assume "j < 20000 \<and> residual_small env nGlobal nDir pInput pOutput j \<and>
          (\<forall>i<j. \<not> residual_small env nGlobal nDir pInput pOutput i)"
  then show "SolveLinearSystem env nGlobal pInput pOutput nDir =
              Inr (write_at 0 pOutput
                     (vcopy (nNonDir_of nGlobal nDir)
                        (out_new (cg_body env (nNonDir_of nGlobal nDir) (nat nDir)
                                    (cg_pass env nGlobal nDir pInput pOutput j)))),
                   body_log (cg_pass env nGlobal nDir pInput pOutput j))"
    using solve_converges_at [OF ne] by blast
next
  assume "\<forall>i<20000. \<not> residual_small env nGlobal nDir pInput pOutput i"
  then show "SolveLinearSystem env nGlobal pInput pOutput nDir = Inl (AssertL1 max_iterations_msg)"
    by (rule solve_cap [OF ne])
next
  assume r: "\<exists>res. SolveLinearSystem env nGlobal pInput pOutput nDir = Inr res"
  show "\<exists>i<20000. residual_small env nGlobal nDir pInput pOutput i"
  proof (rule ccontr)
    assume "\<not> (\<exists>i<20000. residual_small env nGlobal nDir pInput pOutput i)"
    then have "\<forall>i<20000. \<not> residual_small env nGlobal nDir pInput pOutput i" by blast
    then have "SolveLinearSystem env nGlobal pInput pOutput nDir = Inl (AssertL1 max_iterations_msg)"
      by (rule solve_cap [OF ne])
    with r show False by simp
  qed
qed

lemma ex_pass0:
  "cg_pass ex_env 1 0 [4] [10] 0 =
     \<lparr> out = [10], r_A = [4], z_A = [4], d_A = [4], p_A = [0], k_iter = 0, calls = [] \<rparr>"
  by (simp add: cg_pass_def cg_init_def Let_def nNonDir_of_def vcopy_def write_at_def ex_env_def)

lemma ex_body0:
  "cg_body ex_env 1 0
     \<lparr> out = [10], r_A = [4], z_A = [4], d_A = [4], p_A = [0], k_iter = 0, calls = [] \<rparr> =
     \<lparr> p_new_A = [8], out_new = [12], r_new_A = [0], z_new_A = [0], beta = 0, normsq = 0 \<rparr>"
  by (simp add: cg_body_def Let_def ex_env_def ex_dot_def vplus_def vminus_def vcopy_def)

lemma stall_body:
  assumes "r_A st = [1]" and "z_A st = [0]" and "d_A st = [0]"
  shows "normsq (cg_body ex_stall_env 1 0 st) = 1"
    and "r_new_A (cg_body ex_stall_env 1 0 st) = [1]"
    and "z_new_A (cg_body ex_stall_env 1 0 st) = [0]"
    and "beta (cg_body ex_stall_env 1 0 st) = 0"
  using assms
  by (simp_all add: cg_body_def Let_def ex_stall_env_def ex_dot_def vplus_def vminus_def vcopy_def)

lemma stall_pass:
  "r_A (cg_pass ex_stall_env 1 0 [1] [0] j) = [1] \<and>
   z_A (cg_pass ex_stall_env 1 0 [1] [0] j) = [0] \<and>
   d_A (cg_pass ex_stall_env 1 0 [1] [0] j) = [0]"
proof (induction j)
  case 0
  show ?case
    by (simp add: cg_pass_def cg_init_def Let_def nNonDir_of_def vcopy_def write_at_def
        ex_stall_env_def)
next
  case (Suc j)
  have "cg_pass ex_stall_env 1 0 [1] [0] (Suc j) =
          cg_step ex_stall_env 1 0 (cg_pass ex_stall_env 1 0 [1] [0] j)"
    by (simp add: cg_pass_def nNonDir_of_def)
  then show ?case
    using Suc.IH stall_body [of "cg_pass ex_stall_env 1 0 [1] [0] j"]
    by (simp add: cg_step_def cg_next_def vplus_def write_at_def)
qed

lemma stall_never_small: "\<not> residual_small ex_stall_env 1 0 [1] [0] j"
  using stall_pass [of j] stall_body(1) [of "cg_pass ex_stall_env 1 0 [1] [0] j"]
  by (simp add: residual_small_def converged_def nNonDir_of_def) (simp add: ex_stall_env_def)

theorem cg_terminates_or_fails_witness:
  "SolveLinearSystem ex_env 1 [4] [10] 0 = Inr ([12], [MatrixMultiply [4], Reduce, Reduce]) \<and>
   SolveLinearSystem ex_stall_env 1 [1] [0] 0 = Inl (AssertL1 max_iterations_msg)"
proof
  have ne: "\<not> initial_residual_zero ex_env 1 0 [4]"
    by (simp add: initial_residual_zero_def nNonDir_of_def ex_env_def ex_dot_def vcopy_def)
  have rs: "residual_small ex_env 1 0 [4] [10] 0"
    by (simp add: residual_small_def converged_def ex_pass0 nNonDir_of_def ex_body0 [simplified])
      (simp add: ex_env_def)
  show "SolveLinearSystem ex_env 1 [4] [10] 0 = Inr ([12], [MatrixMultiply [4], Reduce, Reduce])"
    using cg_terminates_or_fails [OF ne, of 0 "[10]"] rs
    by (simp add: ex_pass0 nNonDir_of_def ex_body0 [simplified] body_log_def write_at_def vcopy_def)
next
  have ne: "\<not> initial_residual_zero ex_stall_env 1 0 [1]"
    by (simp add: initial_residual_zero_def nNonDir_of_def ex_stall_env_def ex_dot_def vcopy_def)
  show "SolveLinearSystem ex_stall_env 1 [1] [0] 0 = Inl (AssertL1 max_iterations_msg)"
    using cg_terminates_or_fails [OF ne, of 0 "[0]"] stall_never_small by simp
qed

text \<open>
  Claim C8. When the squared norm of the initial residual is below \<open>kNekZeroTol\<close>, the
  solve sets the first \<open>nNonDir\<close> entries of the output array to zero, leaves the rest of
  the array as it is, and returns with an empty log: no call of the operator's
  matrix-vector product and no reduction of the loop has happened. (The preconditioner has
  been applied once to the residual before the test, as the code does.)
\<close>

theorem early_exit_zero_output:
  assumes "initial_residual_zero env nGlobal nDir pInput"
  shows "SolveLinearSystem env nGlobal pInput pOutput nDir =
           Inr (replicate (nNonDir_of nGlobal nDir) 0 @ drop (nNonDir_of nGlobal nDir) pOutput, [])"
  using assms
  by (simp add: SolveLinearSystem_def Let_def initial_residual_zero_def nNonDir_of_def cg_init_def
      write_at_def)

theorem early_exit_zero_output_witness:
  "initial_residual_zero ex_env 3 1 [0, 0] \<and>
   SolveLinearSystem ex_env 3 [0, 0] [7, 8, 9] 1 = Inr ([0, 0, 9], [])"
proof -
  have z: "initial_residual_zero ex_env 3 1 [0, 0]"
    by (simp add: initial_residual_zero_def nNonDir_of_def ex_env_def ex_dot_def vcopy_def
        numeral_2_eq_2)
  show ?thesis
    using early_exit_zero_output [OF z, of "[7, 8, 9]"] z
    by (simp add: nNonDir_of_def numeral_2_eq_2)
qed



lemma cg_body_shift:
  assumes "same_but_out n c st1 st2"
  shows "r_new_A (cg_body env n nd st1) = r_new_A (cg_body env n nd st2)"
    and "p_new_A (cg_body env n nd st1) = p_new_A (cg_body env n nd st2)"
    and "z_new_A (cg_body env n nd st1) = z_new_A (cg_body env n nd st2)"
    and "beta (cg_body env n nd st1) = beta (cg_body env n nd st2)"
    and "normsq (cg_body env n nd st1) = normsq (cg_body env n nd st2)"
    and "\<forall>i<n. out_new (cg_body env n nd st1) ! i = c ! i + out_new (cg_body env n nd st2) ! i"
  using assms
  by (simp_all add: same_but_out_def cg_body_def Let_def split_beta vplus_def)

lemma cg_exit_shift:
  assumes "same_but_out n c st1 st2"
  shows "same_but_out n c (cg_exit st1 (cg_body env n nd st1)) (cg_exit st2 (cg_body env n nd st2))"
  using cg_body_shift [OF assms, of env nd] assms
  by (simp add: same_but_out_def cg_exit_def body_log_def)

lemma cg_next_shift:
  assumes "same_but_out n c st1 st2"
  shows "same_but_out n c (cg_next n nd st1 (cg_body env n nd st1))
           (cg_next n nd st2 (cg_body env n nd st2))"
  using cg_body_shift [OF assms, of env nd] assms
  by (simp add: same_but_out_def cg_next_def body_log_def)

lemma cg_loop_shift:
  "same_but_out n c st1 st2 \<Longrightarrow>
   (case cg_loop env n nd st2 of
      Inl e \<Rightarrow> cg_loop env n nd st1 = Inl e
    | Inr st2' \<Rightarrow> (\<exists>st1'. cg_loop env n nd st1 = Inr st1' \<and> same_but_out n c st1' st2'))"
proof (induction env n nd st2 arbitrary: st1 rule: cg_loop.induct)
  case (1 env n nd st2)
  note same = "1.prems"
  have nsq: "normsq (cg_body env n nd st1) = normsq (cg_body env n nd st2)"
    by (rule cg_body_shift(5) [OF same])
  have kk: "k_iter st1 = k_iter st2"
    using same by (simp add: same_but_out_def)
  show ?case
  proof (cases "sqrt (normsq (cg_body env n nd st2)) < kNekIterativeTol env")
    case True
    have e2: "cg_loop env n nd st2 = Inr (cg_exit st2 (cg_body env n nd st2))"
      using True by (subst cg_loop.simps) simp
    have e1: "cg_loop env n nd st1 = Inr (cg_exit st1 (cg_body env n nd st1))"
      using True nsq by (subst cg_loop.simps) simp
    show ?thesis
      using cg_exit_shift [OF same, of env nd] by (simp add: e1 e2)
  next
    case nconv: False
    show ?thesis
    proof (cases "Suc (k_iter st2) < 20000")
      case True
      have e2: "cg_loop env n nd st2 =
                  cg_loop env n nd (cg_next n nd st2 (cg_body env n nd st2))"
        using nconv True by (subst cg_loop.simps) simp
      have e1: "cg_loop env n nd st1 =
                  cg_loop env n nd (cg_next n nd st1 (cg_body env n nd st1))"
        using nconv True nsq kk by (subst cg_loop.simps) simp
      show ?thesis
        unfolding e1 e2 by (rule "1.IH" [OF nconv True cg_next_shift [OF same]])
    next
      case False
      have e2: "cg_loop env n nd st2 = Inl (AssertL1 max_iterations_msg)"
        using nconv False by (subst cg_loop.simps) simp
      have e1: "cg_loop env n nd st1 = Inl (AssertL1 max_iterations_msg)"
        using nconv False nsq kk by (subst cg_loop.simps) simp
      show ?thesis
        by (simp add: e1 e2)
    qed
  qed
qed

lemma nth_write_at_0: "i < length v \<Longrightarrow> write_at 0 arr v ! i = v ! i"
  by (simp add: write_at_def nth_append)

text \<open>
  Claim C10. The solve never sets the output vector to a zero initial guess: every pass
  adds \<open>alpha * d\<close> to the vector as the caller passed it. When the initial residual is not
  numerically zero, the run on the caller's array and the run on an array of zeros make the
  same calls and fail alike, and where they return, each of the \<open>nNonDir\<close> entries returned
  is the caller's initial entry plus the entry of the correction computed from zero.
\<close>

theorem output_is_initial_plus_correction:
  assumes ne: "\<not> initial_residual_zero env nGlobal nDir pInput"
  shows "case SolveLinearSystem env nGlobal pInput (replicate (nNonDir_of nGlobal nDir) 0) nDir of
           Inl e \<Rightarrow> SolveLinearSystem env nGlobal pInput pOutput nDir = Inl e
         | Inr (corr, lg) \<Rightarrow>
             (\<exists>res. SolveLinearSystem env nGlobal pInput pOutput nDir = Inr (res, lg) \<and>
                    (\<forall>i < nNonDir_of nGlobal nDir. res ! i = pOutput ! i + corr ! i))"
proof -
  let ?n = "nNonDir_of nGlobal nDir"
  let ?st1 = "cg_pass env nGlobal nDir pInput pOutput 0"
  let ?st2 = "cg_pass env nGlobal nDir pInput (replicate ?n 0) 0"
  have same: "same_but_out ?n pOutput ?st1 ?st2"
    by (simp add: same_but_out_def cg_pass_def cg_init_def Let_def)
  note sh = cg_loop_shift [OF same, of env "nat nDir"]
  show ?thesis
  proof (cases "cg_loop env ?n (nat nDir) ?st2")
    case (Inl e)
    then show ?thesis
      using sh by (simp add: solve_unfold [OF ne])
  next
    case (Inr st2')
    then obtain st1' where l1: "cg_loop env ?n (nat nDir) ?st1 = Inr st1'"
      and s': "same_but_out ?n pOutput st1' st2'"
      using sh by auto
    have "\<forall>i < ?n. write_at 0 pOutput (vcopy ?n (out st1')) ! i =
            pOutput ! i + write_at 0 (replicate ?n 0) (vcopy ?n (out st2')) ! i"
      using s' by (simp add: nth_write_at_0 vcopy_def same_but_out_def)
    then show ?thesis
      using Inr l1 s' by (simp add: solve_unfold [OF ne] same_but_out_def)
  qed
qed

lemma ex_solve_from_zero:
  "SolveLinearSystem ex_env 1 [4] [0] 0 = Inr ([2], [MatrixMultiply [4], Reduce, Reduce])"
proof -
  have b: "cg_body ex_env (Suc 0) 0
     \<lparr> out = [0], r_A = [4], z_A = [4], d_A = [4], p_A = [0], k_iter = 0, calls = [] \<rparr> =
     \<lparr> p_new_A = [8], out_new = [2], r_new_A = [0], z_new_A = [0], beta = 0, normsq = 0 \<rparr>"
    by (simp add: cg_body_def Let_def ex_env_def ex_dot_def vplus_def vminus_def vcopy_def)
  have i: "cg_init ex_env (Suc 0) (Suc 0) 0 [4] [0] =
             \<lparr> out = [0], r_A = [4], z_A = [4], d_A = [4], p_A = [0], k_iter = 0, calls = [] \<rparr>"
    by (simp add: cg_init_def Let_def vcopy_def write_at_def ex_env_def)
  have t: "kNekIterativeTol ex_env = 1 / 1000" "kNekZeroTol ex_env = 1 / 1000" "Ddot2 ex_env = ex_dot"
    by (simp_all add: ex_env_def)
  show ?thesis
    by (simp add: SolveLinearSystem_def Let_def i b t cg_loop.simps cg_exit_def body_log_def
        write_at_def vcopy_def ex_dot_def)
qed

theorem output_is_initial_plus_correction_witness:
  "\<not> initial_residual_zero ex_env 1 0 [4] \<and>
   SolveLinearSystem ex_env 1 [4] [0] 0 = Inr ([2], [MatrixMultiply [4], Reduce, Reduce]) \<and>
   (\<exists>res. SolveLinearSystem ex_env 1 [4] [10] 0 = Inr (res, [MatrixMultiply [4], Reduce, Reduce]) \<and>
          res ! 0 = 12)"
proof -
  have ne: "\<not> initial_residual_zero ex_env 1 0 [4]"
    by (simp add: initial_residual_zero_def nNonDir_of_def ex_env_def ex_dot_def vcopy_def)
  show ?thesis
    using output_is_initial_plus_correction [OF ne, of "[10]"] ne
    by (simp add: nNonDir_of_def ex_solve_from_zero)
qed



subsection \<open>Global assembly\<close>

lemma fold_upt_sum:
  fixes val :: "'s \<Rightarrow> real"
  assumes step: "\<And>j s. I s \<Longrightarrow> I (f j s) \<and> val (f j s) = val s + t j"
    and I: "I s"
  shows "I (fold f [0..<m] s) \<and> val (fold f [0..<m] s) = val s + (\<Sum>j<m. t j)"
proof (induction m)
  case 0
  show ?case using I by simp
next
  case (Suc m)
  then show ?case using step [of "fold f [0..<m] s" m] by simp
qed

lemma full_entry_effect:
  assumes "gstorage G = st"
  shows "gstorage (full_entry l2g st loc cnt i j G) = st"
    and "grows (full_entry l2g st loc cnt i j G) = grows G"
    and "gcols (full_entry l2g st loc cnt i j G) = gcols G"
    and "0 \<le> LocalToGlobalMap l2g ! (cnt + i) - NumGlobalDirBndCoeffs l2g \<Longrightarrow>
         gdata (full_entry l2g st loc cnt i j G) p = gdata G p + full_contrib l2g st loc cnt i j p"
  using assms
  by (auto simp: full_entry_def full_contrib_def Let_def SetValue_def GetValue_def)

lemma full_row_effect:
  assumes st: "gstorage G = st"
  shows "gstorage (full_row l2g st loc cnt i G) = st \<and>
         grows (full_row l2g st loc cnt i G) = grows G \<and>
         gcols (full_row l2g st loc cnt i G) = gcols G \<and>
         gdata (full_row l2g st loc cnt i G) p =
           gdata G p + (\<Sum>j<Columns (Owned loc). full_contrib l2g st loc cnt i j p)"
proof (cases "0 \<le> LocalToGlobalMap l2g ! (cnt + i) - NumGlobalDirBndCoeffs l2g")
  case True
  have "(gstorage (fold (full_entry l2g st loc cnt i) [0..<Columns (Owned loc)] G) = st \<and>
         grows (fold (full_entry l2g st loc cnt i) [0..<Columns (Owned loc)] G) = grows G \<and>
         gcols (fold (full_entry l2g st loc cnt i) [0..<Columns (Owned loc)] G) = gcols G) \<and>
        gdata (fold (full_entry l2g st loc cnt i) [0..<Columns (Owned loc)] G) p =
          gdata G p + (\<Sum>j<Columns (Owned loc). full_contrib l2g st loc cnt i j p)"
    by (rule fold_upt_sum [where I = "\<lambda>H. gstorage H = st \<and> grows H = grows G \<and> gcols H = gcols G"
          and val = "\<lambda>H. gdata H p" and t = "\<lambda>j. full_contrib l2g st loc cnt i j p"])
       (use True st in \<open>simp_all add: full_entry_effect\<close>)
  then show ?thesis
    using True by (simp add: full_row_def Let_def)
next
  case False
  then have "full_contrib l2g st loc cnt i j p = 0" for j
    by (simp add: full_contrib_def Let_def)
  then show ?thesis
    using False st by (simp add: full_row_def Let_def)
qed

lemma full_rows_effect:
  assumes st: "gstorage G = st"
  shows "gstorage (fold (full_row l2g st loc cnt) [0..<m] G) = st \<and>
         grows (fold (full_row l2g st loc cnt) [0..<m] G) = grows G \<and>
         gcols (fold (full_row l2g st loc cnt) [0..<m] G) = gcols G \<and>
         gdata (fold (full_row l2g st loc cnt) [0..<m] G) p =
           gdata G p + (\<Sum>i<m. \<Sum>j<Columns (Owned loc). full_contrib l2g st loc cnt i j p)"
proof -
  have "(gstorage (fold (full_row l2g st loc cnt) [0..<m] G) = st \<and>
         grows (fold (full_row l2g st loc cnt) [0..<m] G) = grows G \<and>
         gcols (fold (full_row l2g st loc cnt) [0..<m] G) = gcols G) \<and>
        gdata (fold (full_row l2g st loc cnt) [0..<m] G) p =
          gdata G p + (\<Sum>i<m. \<Sum>j<Columns (Owned loc). full_contrib l2g st loc cnt i j p)"
    by (rule fold_upt_sum [where I = "\<lambda>H. gstorage H = st \<and> grows H = grows G \<and> gcols H = gcols G"
          and val = "\<lambda>H. gdata H p"
          and t = "\<lambda>i. \<Sum>j<Columns (Owned loc). full_contrib l2g st loc cnt i j p"])
       (simp_all add: full_row_effect st)
  then show ?thesis by simp
qed

lemma cnt_at_append: "n \<le> length es \<Longrightarrow> cnt_at (es @ [e]) n = cnt_at es n"
  by (simp add: cnt_at_def)

lemma cnt_at_length: "cnt_at es (length es) = sum_list (map Ncoeffs es)"
  by (simp add: cnt_at_def)

lemma lda_at_append: "n < length es \<Longrightarrow> lda_at (es @ [e]) n = lda_at es n"
  by (simp add: lda_at_def nth_append)

lemma full_elmts_effect:
  assumes st: "gstorage G = st"
  shows "fst (fold (full_elmt l2g st) exps (c0, G)) = c0 + sum_list (map Ncoeffs exps) \<and>
         gstorage (snd (fold (full_elmt l2g st) exps (c0, G))) = st \<and>
         grows (snd (fold (full_elmt l2g st) exps (c0, G))) = grows G \<and>
         gcols (snd (fold (full_elmt l2g st) exps (c0, G))) = gcols G \<and>
         gdata (snd (fold (full_elmt l2g st) exps (c0, G))) p =
           gdata G p +
           (\<Sum>n<length exps. \<Sum>i<lda_at exps n. \<Sum>j<lda_at exps n.
              full_contrib l2g st (LocMat (exps ! n)) (c0 + cnt_at exps n) i j p)"
proof (induction exps rule: rev_induct)
  case Nil
  show ?case using st by simp
next
  case (snoc e es)
  obtain c H where f: "fold (full_elmt l2g st) es (c0, G) = (c, H)"
    by (cases "fold (full_elmt l2g st) es (c0, G)")
  from snoc f have c: "c = c0 + sum_list (map Ncoeffs es)" and H: "gstorage H = st"
    and Hr: "grows H = grows G" and Hc: "gcols H = gcols G"
    and Hd: "gdata H p = gdata G p +
           (\<Sum>n<length es. \<Sum>i<lda_at es n. \<Sum>j<lda_at es n.
              full_contrib l2g st (LocMat (es ! n)) (c0 + cnt_at es n) i j p)"
    by simp_all
  have old: "(\<Sum>n<length es. \<Sum>i<lda_at (es @ [e]) n. \<Sum>j<lda_at (es @ [e]) n.
              full_contrib l2g st (LocMat ((es @ [e]) ! n)) (c0 + cnt_at (es @ [e]) n) i j p) =
             (\<Sum>n<length es. \<Sum>i<lda_at es n. \<Sum>j<lda_at es n.
              full_contrib l2g st (LocMat (es ! n)) (c0 + cnt_at es n) i j p)"
    by (rule sum.cong) (simp_all add: lda_at_append cnt_at_append nth_append)
  have new: "lda_at (es @ [e]) (length es) = Columns (Owned (LocMat e))"
    "cnt_at (es @ [e]) (length es) = sum_list (map Ncoeffs es)"
    by (simp_all add: lda_at_def cnt_at_def)
  note r = full_rows_effect [OF H, of l2g "LocMat e" c "Columns (Owned (LocMat e))" p]
  have step: "fold (full_elmt l2g st) (es @ [e]) (c0, G) = full_elmt l2g st e (c, H)"
    by (simp add: f)
  have step2: "full_elmt l2g st e (c', H') =
      (c' + Ncoeffs e, fold (full_row l2g st (LocMat e) c') [0..<Columns (Owned (LocMat e))] H')"
    for c' H'
    by (simp add: full_elmt_def Let_def)
  show ?case
    using r c Hr Hc Hd
    by (simp add: f step2 old new)
qed

lemma GenGlobalMatrixFull_data:
  assumes nv: "\<not> (nvarcoeffs > 0 \<and> exps \<noteq> [])"
  shows "\<exists>G. GenGlobalMatrixFull mtype nvarcoeffs l2g exps = Inr G \<and>
           grows G = word_of_int (NumGlobalCoeffs l2g - NumGlobalDirBndCoeffs l2g) \<and>
           gcols G = word_of_int (NumGlobalCoeffs l2g - NumGlobalDirBndCoeffs l2g) \<and>
           gstorage G = matStorage_of mtype (FullSystemBandWidth l2g)
                          (word_of_int (NumGlobalCoeffs l2g - NumGlobalDirBndCoeffs l2g)) \<and>
           (\<forall>p. gdata G p =
              (\<Sum>n<length exps. \<Sum>i<lda_at exps n. \<Sum>j<lda_at exps n.
                 full_contrib l2g (gstorage G) (LocMat (exps ! n)) (cnt_at exps n) i j p))"
proof -
  let ?rows = "word_of_int (NumGlobalCoeffs l2g - NumGlobalDirBndCoeffs l2g) :: uint"
  let ?st = "matStorage_of mtype (FullSystemBandWidth l2g) ?rows"
  let ?G0 = "\<lparr> grows = ?rows, gcols = ?rows, gstorage = ?st, gdata = (\<lambda>_. 0) \<rparr>"
  have st: "gstorage ?G0 = ?st" by simp
  have eq: "GenGlobalMatrixFull mtype nvarcoeffs l2g exps =
              Inr (snd (fold (full_elmt l2g ?st) exps (0, ?G0)))"
    using nv by (simp add: GenGlobalMatrixFull_def Let_def)
  show ?thesis
    unfolding eq using full_elmts_effect [OF st, of l2g exps 0]
    by simp
qed


lemma fold_upt_or:
  assumes step: "\<And>j s. P (f j s) \<longleftrightarrow> P s \<or> h j"
  shows "P (fold f [0..<m] s) \<longleftrightarrow> P s \<or> (\<exists>j<m. h j)"
proof (induction m)
  case 0
  show ?case by simp
next
  case (Suc m)
  then show ?case using step [of m "fold f [0..<m] s"] by (auto simp: less_Suc_eq)
qed

lemma sparse_entry_effect:
  "stored (sparse_entry l2g first second loc c1 c2 i j sp) c =
     stored sp c + sparse_contrib l2g first second loc c1 c2 i j c"
  "sparse_entry l2g first second loc c1 c2 i j sp c \<noteq> None \<longleftrightarrow>
     sp c \<noteq> None \<or> sparse_hit l2g first second c1 c2 i j c"
  by (auto simp: sparse_entry_def sparse_fill_def stored_def sparse_contrib_def sparse_hit_def
      split: option.splits)

lemma sparse_row_effect:
  "stored (fold (sparse_entry l2g first second loc c1 c2 i) [0..<m] sp) c =
     stored sp c + (\<Sum>j<m. sparse_contrib l2g first second loc c1 c2 i j c)"
  "fold (sparse_entry l2g first second loc c1 c2 i) [0..<m] sp c \<noteq> None \<longleftrightarrow>
     sp c \<noteq> None \<or> (\<exists>j<m. sparse_hit l2g first second c1 c2 i j c)"
proof -
  have "True \<and> stored (fold (sparse_entry l2g first second loc c1 c2 i) [0..<m] sp) c =
     stored sp c + (\<Sum>j<m. sparse_contrib l2g first second loc c1 c2 i j c)"
    by (rule fold_upt_sum [where I = "\<lambda>_. True" and val = "\<lambda>s. stored s c"
          and t = "\<lambda>j. sparse_contrib l2g first second loc c1 c2 i j c"])
       (simp_all add: sparse_entry_effect)
  then show "stored (fold (sparse_entry l2g first second loc c1 c2 i) [0..<m] sp) c =
     stored sp c + (\<Sum>j<m. sparse_contrib l2g first second loc c1 c2 i j c)"
    by simp
  show "fold (sparse_entry l2g first second loc c1 c2 i) [0..<m] sp c \<noteq> None \<longleftrightarrow>
     sp c \<noteq> None \<or> (\<exists>j<m. sparse_hit l2g first second c1 c2 i j c)"
    by (rule fold_upt_or [where P = "\<lambda>s. s c \<noteq> None"
          and h = "\<lambda>j. sparse_hit l2g first second c1 c2 i j c"])
       (rule sparse_entry_effect)
qed

lemma sparse_rows_effect:
  "stored (fold (\<lambda>i. fold (sparse_entry l2g first second loc c1 c2 i) [0..<m]) [0..<r] sp) c =
     stored sp c + (\<Sum>i<r. \<Sum>j<m. sparse_contrib l2g first second loc c1 c2 i j c)"
  "fold (\<lambda>i. fold (sparse_entry l2g first second loc c1 c2 i) [0..<m]) [0..<r] sp c \<noteq> None \<longleftrightarrow>
     sp c \<noteq> None \<or> (\<exists>i<r. \<exists>j<m. sparse_hit l2g first second c1 c2 i j c)"
proof -
  have "True \<and>
     stored (fold (\<lambda>i. fold (sparse_entry l2g first second loc c1 c2 i) [0..<m]) [0..<r] sp) c =
     stored sp c + (\<Sum>i<r. \<Sum>j<m. sparse_contrib l2g first second loc c1 c2 i j c)"
    by (rule fold_upt_sum [where I = "\<lambda>_. True" and val = "\<lambda>s. stored s c"
          and t = "\<lambda>i. \<Sum>j<m. sparse_contrib l2g first second loc c1 c2 i j c"])
       (simp_all add: sparse_row_effect)
  then show "stored (fold (\<lambda>i. fold (sparse_entry l2g first second loc c1 c2 i) [0..<m]) [0..<r] sp) c =
     stored sp c + (\<Sum>i<r. \<Sum>j<m. sparse_contrib l2g first second loc c1 c2 i j c)"
    by simp
  show "fold (\<lambda>i. fold (sparse_entry l2g first second loc c1 c2 i) [0..<m]) [0..<r] sp c \<noteq> None \<longleftrightarrow>
     sp c \<noteq> None \<or> (\<exists>i<r. \<exists>j<m. sparse_hit l2g first second c1 c2 i j c)"
    by (rule fold_upt_or [where P = "\<lambda>s. s c \<noteq> None"
          and h = "\<lambda>i. \<exists>j<m. sparse_hit l2g first second c1 c2 i j c"])
       (rule sparse_row_effect)
qed

lemma sparse_elmts_effect:
  "\<exists>sp'. fold (sparse_elmt l2g first second) exps (a, b, sp) =
       (a + cntdim1_at exps (length exps), b + cntdim2_at exps (length exps), sp') \<and>
     stored sp' c = stored sp c +
       (\<Sum>n<length exps. \<Sum>i<rows_at exps n. \<Sum>j<lda_at exps n.
          sparse_contrib l2g first second (LocMat (exps ! n))
            (a + cntdim1_at exps n) (b + cntdim2_at exps n) i j c) \<and>
     (sp' c \<noteq> None \<longleftrightarrow> sp c \<noteq> None \<or>
       (\<exists>n<length exps. \<exists>i<rows_at exps n. \<exists>j<lda_at exps n.
          sparse_hit l2g first second (a + cntdim1_at exps n) (b + cntdim2_at exps n) i j c))"
proof (induction exps rule: rev_induct)
  case Nil
  show ?case by (simp add: cntdim1_at_def cntdim2_at_def)
next
  case (snoc e es)
  then obtain sp1 where f: "fold (sparse_elmt l2g first second) es (a, b, sp) =
       (a + cntdim1_at es (length es), b + cntdim2_at es (length es), sp1)"
    and v1: "stored sp1 c = stored sp c +
       (\<Sum>n<length es. \<Sum>i<rows_at es n. \<Sum>j<lda_at es n.
          sparse_contrib l2g first second (LocMat (es ! n))
            (a + cntdim1_at es n) (b + cntdim2_at es n) i j c)"
    and p1: "sp1 c \<noteq> None \<longleftrightarrow> sp c \<noteq> None \<or>
       (\<exists>n<length es. \<exists>i<rows_at es n. \<exists>j<lda_at es n.
          sparse_hit l2g first second (a + cntdim1_at es n) (b + cntdim2_at es n) i j c)"
    by blast
  let ?r = "Rows (Owned (LocMat e))" and ?m = "Columns (Owned (LocMat e))"
  let ?c1 = "a + cntdim1_at es (length es)" and ?c2 = "b + cntdim2_at es (length es)"
  let ?sp' = "fold (\<lambda>i. fold (sparse_entry l2g first second (LocMat e) ?c1 ?c2 i) [0..<?m]) [0..<?r] sp1"
  have app: "n < length es \<Longrightarrow> rows_at (es @ [e]) n = rows_at es n \<and>
       lda_at (es @ [e]) n = lda_at es n \<and> (es @ [e]) ! n = es ! n" for n
    by (simp add: rows_at_def lda_at_def nth_append)
  have app2: "n \<le> length es \<Longrightarrow> cntdim1_at (es @ [e]) n = cntdim1_at es n \<and>
       cntdim2_at (es @ [e]) n = cntdim2_at es n" for n
    by (simp add: cntdim1_at_def cntdim2_at_def)
  have last: "rows_at (es @ [e]) (length es) = ?r" "lda_at (es @ [e]) (length es) = ?m"
    "(es @ [e]) ! length es = e"
    by (simp_all add: rows_at_def lda_at_def)
  have tot: "cntdim1_at (es @ [e]) (length (es @ [e])) = cntdim1_at es (length es) + ?r"
    "cntdim2_at (es @ [e]) (length (es @ [e])) = cntdim2_at es (length es) + ?m"
    by (simp_all add: cntdim1_at_def cntdim2_at_def)
  have step: "fold (sparse_elmt l2g first second) (es @ [e]) (a, b, sp) =
      (?c1 + ?r, ?c2 + ?m, ?sp')"
    by (simp add: f) (simp add: sparse_elmt_def Let_def)
  let ?G = "\<lambda>n. \<Sum>i<rows_at (es @ [e]) n. \<Sum>j<lda_at (es @ [e]) n.
          sparse_contrib l2g first second (LocMat ((es @ [e]) ! n))
            (a + cntdim1_at (es @ [e]) n) (b + cntdim2_at (es @ [e]) n) i j c"
  let ?H = "\<lambda>n. \<exists>i<rows_at (es @ [e]) n. \<exists>j<lda_at (es @ [e]) n.
          sparse_hit l2g first second (a + cntdim1_at (es @ [e]) n) (b + cntdim2_at (es @ [e]) n) i j c"
  have old: "(\<Sum>n<length es. ?G n) =
       (\<Sum>n<length es. \<Sum>i<rows_at es n. \<Sum>j<lda_at es n.
          sparse_contrib l2g first second (LocMat (es ! n))
            (a + cntdim1_at es n) (b + cntdim2_at es n) i j c)"
    by (rule sum.cong) (simp_all add: app app2)
  have oldh: "(\<exists>n<length es. ?H n) \<longleftrightarrow>
       (\<exists>n<length es. \<exists>i<rows_at es n. \<exists>j<lda_at es n.
          sparse_hit l2g first second (a + cntdim1_at es n) (b + cntdim2_at es n) i j c)"
    using app app2 by (metis less_imp_le_nat)
  have a1: "stored ?sp' c = stored sp1 c +
       (\<Sum>i<?r. \<Sum>j<?m. sparse_contrib l2g first second (LocMat e) ?c1 ?c2 i j c)"
    by (rule sparse_rows_effect(1))
  have a2: "(\<Sum>n<length (es @ [e]). ?G n) = (\<Sum>n<length es. ?G n) + ?G (length es)"
    by (simp only: length_append_singleton sum.lessThan_Suc)
  have a3: "?G (length es) =
       (\<Sum>i<?r. \<Sum>j<?m. sparse_contrib l2g first second (LocMat e) ?c1 ?c2 i j c)"
    using last app2 [of "length es"] by simp
  have v: "stored ?sp' c = stored sp c + (\<Sum>n<length (es @ [e]). ?G n)"
    unfolding a1 v1 a2 old a3 by simp
  have b1: "?sp' c \<noteq> None \<longleftrightarrow> sp1 c \<noteq> None \<or>
       (\<exists>i<?r. \<exists>j<?m. sparse_hit l2g first second ?c1 ?c2 i j c)"
    by (rule sparse_rows_effect(2))
  have b2: "(\<exists>n<length (es @ [e]). ?H n) \<longleftrightarrow> (\<exists>n<length es. ?H n) \<or> ?H (length es)"
    by (simp only: length_append_singleton less_Suc_eq) blast
  have b3: "?H (length es) \<longleftrightarrow> (\<exists>i<?r. \<exists>j<?m. sparse_hit l2g first second ?c1 ?c2 i j c)"
    using last app2 [of "length es"] by simp
  have p: "?sp' c \<noteq> None \<longleftrightarrow> sp c \<noteq> None \<or> (\<exists>n<length (es @ [e]). ?H n)"
    unfolding b1 p1 b2 oldh b3 by blast
  show ?case
    using step v p by (simp only: tot add.assoc) blast
qed


lemma full_contrib_upper:
  assumes "st = eFULL \<or> g1 \<le> g2"
  shows "full_contrib l2g st loc cnt i j (slot st g1 g2) =
     (if LocalToGlobalMap l2g ! (cnt + i) - NumGlobalDirBndCoeffs l2g = int g1 \<and>
         LocalToGlobalMap l2g ! (cnt + j) - NumGlobalDirBndCoeffs l2g = int g2
      then LocalToGlobalSign l2g ! (cnt + i) * LocalToGlobalSign l2g ! (cnt + j) * scal_elem loc i j
      else 0)"
  using assms by (auto simp: full_contrib_def Let_def slot_def)

lemma sparse_contrib_assembled:
  "sparse_contrib l2g True True loc c1 c2 i j (g1, g2) =
     (if LocalToGlobalMap l2g ! (c1 + i) = g1 \<and> LocalToGlobalMap l2g ! (c2 + j) = g2
      then LocalToGlobalSign l2g ! (c1 + i) * LocalToGlobalSign l2g ! (c2 + j) * scal_elem loc i j
      else 0)"
  by (simp add: sparse_contrib_def sparse_hit_def gid_of_def sign_of_def)

lemma sparse_hit_assembled:
  "sparse_hit l2g True True c1 c2 i j (g1, g2) \<longleftrightarrow>
     LocalToGlobalMap l2g ! (c1 + i) = g1 \<and> LocalToGlobalMap l2g ! (c2 + j) = g2"
  by (simp add: sparse_hit_def gid_of_def)

lemma GenGlobalMatrix_coo:
  assumes nv: "\<not> (nvarcoeffs > 0 \<and> exps \<noteq> [])"
    and mt: "mtype = eMass \<or> mtype = eHelmholtz \<or> mtype = eLaplacian"
  shows "\<exists>M. GenGlobalMatrix mtype nvarcoeffs npoints l2g exps = Inr M \<and>
           (\<forall>g1 g2. coo M (g1, g2) =
              (if \<exists>n<length exps. \<exists>i<rows_at exps n. \<exists>j<lda_at exps n.
                    glob_hit l2g exps n i j g1 g2
               then Some (\<Sum>n<length exps. \<Sum>i<rows_at exps n. \<Sum>j<lda_at exps n.
                            glob_contrib l2g exps n i j g1 g2)
               else None))"
proof -
  let ?sp = "snd (snd (fold (sparse_elmt l2g True True) exps (0, 0, Map.empty)))"
  have eq: "GenGlobalMatrix mtype nvarcoeffs npoints l2g exps =
      Inr \<lparr> glob_rows = word_of_int (NumGlobalCoeffs l2g),
            glob_cols = word_of_int (NumGlobalCoeffs l2g), coo = ?sp \<rparr>"
    using nv mt by (auto simp: GenGlobalMatrix_def Let_def)
  have "?sp (g1, g2) =
              (if \<exists>n<length exps. \<exists>i<rows_at exps n. \<exists>j<lda_at exps n.
                    glob_hit l2g exps n i j g1 g2
               then Some (\<Sum>n<length exps. \<Sum>i<rows_at exps n. \<Sum>j<lda_at exps n.
                            glob_contrib l2g exps n i j g1 g2)
               else None)" for g1 g2
  proof -
    obtain sp' where f: "fold (sparse_elmt l2g True True) exps (0, 0, Map.empty) =
         (0 + cntdim1_at exps (length exps), 0 + cntdim2_at exps (length exps), sp')"
      and v: "stored sp' (g1, g2) = stored Map.empty (g1, g2) +
         (\<Sum>n<length exps. \<Sum>i<rows_at exps n. \<Sum>j<lda_at exps n.
            sparse_contrib l2g True True (LocMat (exps ! n))
              (0 + cntdim1_at exps n) (0 + cntdim2_at exps n) i j (g1, g2))"
      and p: "sp' (g1, g2) \<noteq> None \<longleftrightarrow> Map.empty (g1, g2) \<noteq> (None :: real option) \<or>
         (\<exists>n<length exps. \<exists>i<rows_at exps n. \<exists>j<lda_at exps n.
            sparse_hit l2g True True (0 + cntdim1_at exps n) (0 + cntdim2_at exps n) i j (g1, g2))"
      using sparse_elmts_effect [of l2g True True exps 0 0 Map.empty "(g1, g2)"] by blast
    have sp: "?sp = sp'" by (simp add: f)
    show ?thesis
      using v p unfolding sp
      by (cases "sp' (g1, g2)")
         (simp_all add: stored_def sparse_contrib_assembled sparse_hit_assembled glob_hit_def
            glob_contrib_def)
  qed
  then show ?thesis
    unfolding eq by simp
qed

lemma slot_sym:
  "st = ePOSITIVE_DEFINITE_SYMMETRIC \<or> st = ePOSITIVE_DEFINITE_SYMMETRIC_BANDED \<Longrightarrow>
   slot st i j = slot st j i"
  by (auto simp: slot_def)

lemma matStorage_of_cases:
  "matStorage_of mtype bw rows = eFULL \<or>
   matStorage_of mtype bw rows = ePOSITIVE_DEFINITE_SYMMETRIC \<or>
   matStorage_of mtype bw rows = ePOSITIVE_DEFINITE_SYMMETRIC_BANDED"
  by (simp add: matStorage_of_def)

lemma matStorage_of_symmetric_kind:
  "mtype = eHelmholtz \<or> mtype = eLaplacian \<Longrightarrow>
   matStorage_of mtype bw rows = ePOSITIVE_DEFINITE_SYMMETRIC \<or>
   matStorage_of mtype bw rows = ePOSITIVE_DEFINITE_SYMMETRIC_BANDED"
  by (auto simp: matStorage_of_def)

lemma full_contrib_swap:
  assumes "scal_elem loc i j = scal_elem loc j i"
  shows "full_contrib l2g eFULL loc cnt i j (g1, g2) = full_contrib l2g eFULL loc cnt j i (g2, g1)"
  using assms by (auto simp: full_contrib_def Let_def slot_def)

lemma double_sum_transpose:
  fixes f g :: "nat \<Rightarrow> nat \<Rightarrow> real"
  assumes "\<And>i j. i < m \<Longrightarrow> j < m \<Longrightarrow> f i j = g j i"
  shows "(\<Sum>i<m. \<Sum>j<m. f i j) = (\<Sum>i<m. \<Sum>j<m. g i j)"
proof -
  have "(\<Sum>i<m. \<Sum>j<m. f i j) = (\<Sum>i<m. \<Sum>j<m. g j i)"
    by (intro sum.cong refl) (simp add: assms)
  also have "\<dots> = (\<Sum>j<m. \<Sum>i<m. g j i)"
    by (rule sum.swap)
  finally show ?thesis .
qed

lemma free_contrib_transpose:
  assumes "sym_local exps"
  shows "(\<Sum>n<length exps. \<Sum>i<lda_at exps n. \<Sum>j<lda_at exps n. free_contrib l2g exps n i j g2 g1) =
         (\<Sum>n<length exps. \<Sum>i<lda_at exps n. \<Sum>j<lda_at exps n. free_contrib l2g exps n i j g1 g2)"
proof (rule sum.cong [OF refl])
  fix n assume "n \<in> {..<length exps}"
  then have s: "scal_elem (LocMat (exps ! n)) i j = scal_elem (LocMat (exps ! n)) j i"
    if "i < lda_at exps n" "j < lda_at exps n" for i j
    using assms that by (simp add: sym_local_def)
  show "(\<Sum>i<lda_at exps n. \<Sum>j<lda_at exps n. free_contrib l2g exps n i j g2 g1) =
        (\<Sum>i<lda_at exps n. \<Sum>j<lda_at exps n. free_contrib l2g exps n i j g1 g2)"
    by (rule double_sum_transpose) (simp add: free_contrib_def s)
qed

lemma GenGlobalMatrixFull_entries:
  assumes nv: "\<not> (nvarcoeffs > 0 \<and> exps \<noteq> [])"
  shows "\<exists>G. GenGlobalMatrixFull mtype nvarcoeffs l2g exps = Inr G \<and>
            (\<forall>g1 g2. gstorage G = eFULL \<or> g1 \<le> g2 \<or> sym_local exps \<longrightarrow>
               GetValue G g1 g2 =
                 (\<Sum>n<length exps. \<Sum>i<lda_at exps n. \<Sum>j<lda_at exps n.
                    free_contrib l2g exps n i j g1 g2))"
proof -
  obtain G where G: "GenGlobalMatrixFull mtype nvarcoeffs l2g exps = Inr G"
    and st: "gstorage G = matStorage_of mtype (FullSystemBandWidth l2g)
                          (word_of_int (NumGlobalCoeffs l2g - NumGlobalDirBndCoeffs l2g))"
    and d: "\<And>p. gdata G p =
              (\<Sum>n<length exps. \<Sum>i<lda_at exps n. \<Sum>j<lda_at exps n.
                 full_contrib l2g (gstorage G) (LocMat (exps ! n)) (cnt_at exps n) i j p)"
    using GenGlobalMatrixFull_data [OF nv, of mtype l2g] by blast
  have up: "GetValue G g1 g2 =
                 (\<Sum>n<length exps. \<Sum>i<lda_at exps n. \<Sum>j<lda_at exps n.
                    free_contrib l2g exps n i j g1 g2)"
    if "gstorage G = eFULL \<or> g1 \<le> g2" for g1 g2
    unfolding GetValue_def d free_contrib_def by (simp only: full_contrib_upper [OF that])
  have "GetValue G g1 g2 =
                 (\<Sum>n<length exps. \<Sum>i<lda_at exps n. \<Sum>j<lda_at exps n.
                    free_contrib l2g exps n i j g1 g2)"
    if h: "gstorage G = eFULL \<or> g1 \<le> g2 \<or> sym_local exps" for g1 g2
  proof (cases "gstorage G = eFULL \<or> g1 \<le> g2")
    case True
    then show ?thesis by (rule up)
  next
    case False
    then have sl: "sym_local exps" and lt: "g2 \<le> g1" and nf: "gstorage G \<noteq> eFULL"
      using h by auto
    have "gstorage G = ePOSITIVE_DEFINITE_SYMMETRIC \<or>
          gstorage G = ePOSITIVE_DEFINITE_SYMMETRIC_BANDED"
      using matStorage_of_cases [of mtype "FullSystemBandWidth l2g"
          "word_of_int (NumGlobalCoeffs l2g - NumGlobalDirBndCoeffs l2g)"] st nf by simp
    then have "GetValue G g1 g2 = GetValue G g2 g1"
      by (simp add: GetValue_def slot_sym [of "gstorage G" g1 g2])
    also have "\<dots> = (\<Sum>n<length exps. \<Sum>i<lda_at exps n. \<Sum>j<lda_at exps n.
                    free_contrib l2g exps n i j g2 g1)"
      using lt by (intro up) simp
    also have "\<dots> = (\<Sum>n<length exps. \<Sum>i<lda_at exps n. \<Sum>j<lda_at exps n.
                    free_contrib l2g exps n i j g1 g2)"
      by (rule free_contrib_transpose [OF sl])
    finally show ?thesis .
  qed
  then show ?thesis using G by blast
qed


lemma ex_exps_facts:
  "length ex_exps = 2"
  "lda_at ex_exps 0 = 2" "lda_at ex_exps (Suc 0) = 2"
  "rows_at ex_exps 0 = 2" "rows_at ex_exps (Suc 0) = 2"
  "cnt_at ex_exps 0 = 0" "cnt_at ex_exps (Suc 0) = 2"
  "cntdim1_at ex_exps 0 = 0" "cntdim1_at ex_exps (Suc 0) = 2"
  "cntdim2_at ex_exps 0 = 0" "cntdim2_at ex_exps (Suc 0) = 2"
  "LocMat (ex_exps ! 0) = \<lparr> Scale = 1, Owned = \<lparr> Rows = 2, Columns = 2, Elems = [[2, -1], [-1, 2]] \<rparr> \<rparr>"
  "LocMat (ex_exps ! Suc 0) = \<lparr> Scale = 1, Owned = \<lparr> Rows = 2, Columns = 2, Elems = [[2, -1], [-1, 2]] \<rparr> \<rparr>"
  by (simp_all add: ex_exps_def ex_loc_def lda_at_def rows_at_def cnt_at_def cntdim1_at_def
      cntdim2_at_def)

lemma ex_exps'_facts:
  "length ex_exps' = 2"
  "lda_at ex_exps' 0 = 2" "lda_at ex_exps' (Suc 0) = 2"
  "Ncoeffs (ex_exps' ! 0) = 2" "Ncoeffs (ex_exps' ! Suc 0) = 2"
  "Ncoeffs (ex_exps ! 0) = 2" "Ncoeffs (ex_exps ! Suc 0) = 2"
  "LocMat (ex_exps' ! 0) = \<lparr> Scale = 1, Owned = \<lparr> Rows = 2, Columns = 2, Elems = [[7, 8], [9, 2]] \<rparr> \<rparr>"
  "LocMat (ex_exps' ! Suc 0) = \<lparr> Scale = 1, Owned = \<lparr> Rows = 2, Columns = 2, Elems = [[2, -1], [-1, 2]] \<rparr> \<rparr>"
  by (simp_all add: ex_exps'_def ex_exps_def ex_loc_def lda_at_def)

lemma ex_less_2: "(\<exists>n<Suc (Suc 0). P n) \<longleftrightarrow> P 0 \<or> P (Suc 0)"
  by (auto simp: less_Suc_eq)

lemma all_less_2: "(\<forall>n<Suc (Suc 0). P n) \<longleftrightarrow> P 0 \<and> P (Suc 0)"
  by (auto simp: less_Suc_eq)

lemma sum_less_2: "(\<Sum>i<Suc (Suc 0). f i) = f 0 + (f (Suc 0) :: real)"
  by (simp add: lessThan_Suc)

lemma ex_l2g_fields:
  "LocalToGlobalMap ex_l2g = [0, 1, 1, 2]" "LocalToGlobalSign ex_l2g = [1, 1, -1, 1]"
  "NumGlobalDirBndCoeffs ex_l2g = 1" "NumGlobalCoeffs ex_l2g = 3" "FullSystemBandWidth ex_l2g = 1"
  by (simp_all add: ex_l2g_def)

lemma ex_l2g_wide_fields:
  "NumGlobalDirBndCoeffs ex_l2g_wide = 1" "NumGlobalCoeffs ex_l2g_wide = 10"
  "FullSystemBandWidth ex_l2g_wide = 1"
  by (simp_all add: ex_l2g_wide_def)

lemma ex_sym_local: "sym_local ex_exps"
  by (simp add: sym_local_def numeral_2_eq_2 all_less_2 ex_exps_facts [unfolded numeral_2_eq_2]
      scal_elem_def elem_def)

lemma ex_same_free: "same_free_entries ex_l2g ex_exps ex_exps'"
  by (simp add: same_free_entries_def numeral_2_eq_2 all_less_2
      ex_exps_facts [unfolded numeral_2_eq_2] ex_exps'_facts [unfolded numeral_2_eq_2]
      ex_l2g_fields scal_elem_def elem_def)

text \<open>
  Claim C2. Global assembly is a scatter-add. In \<open>GenGlobalMatrix\<close>, for a matrix kind
  assembled in both dimensions, the entry stored at \<open>(g1, g2)\<close> is the sum over every
  element \<open>n\<close> and local pair \<open>(i, j)\<close> with \<open>map[n][i] = g1\<close> and \<open>map[n][j] = g2\<close> of
  \<open>sign[n][i] * sign[n][j] * M_n[i][j]\<close>, and no entry is stored where nothing contributes.
  In \<open>GenGlobalMatrixFull\<close> the entry read at the free pair \<open>(g1, g2)\<close> is the same sum over
  the pairs mapped to \<open>(g1 + NumDirBCs, g2 + NumDirBCs)\<close>: for every pair in full storage,
  and in symmetric storage for the pairs on or above the diagonal, or for every pair when the
  local matrices are symmetric.
\<close>

theorem scatter_add_sums:
  assumes nv: "\<not> (nvarcoeffs > 0 \<and> exps \<noteq> [])"
  shows "(mtype = eMass \<or> mtype = eHelmholtz \<or> mtype = eLaplacian \<longrightarrow>
          (\<exists>M. GenGlobalMatrix mtype nvarcoeffs npoints l2g exps = Inr M \<and>
           (\<forall>g1 g2. coo M (g1, g2) =
              (if \<exists>n<length exps. \<exists>i<rows_at exps n. \<exists>j<lda_at exps n.
                    glob_hit l2g exps n i j g1 g2
               then Some (\<Sum>n<length exps. \<Sum>i<rows_at exps n. \<Sum>j<lda_at exps n.
                            glob_contrib l2g exps n i j g1 g2)
               else None)))) \<and>
         (\<exists>G. GenGlobalMatrixFull mtype nvarcoeffs l2g exps = Inr G \<and>
            (\<forall>g1 g2. gstorage G = eFULL \<or> g1 \<le> g2 \<or> sym_local exps \<longrightarrow>
               GetValue G g1 g2 =
                 (\<Sum>n<length exps. \<Sum>i<lda_at exps n. \<Sum>j<lda_at exps n.
                    free_contrib l2g exps n i j g1 g2)))"
  using GenGlobalMatrix_coo [OF nv] GenGlobalMatrixFull_entries [OF nv] by blast

theorem scatter_add_sums_witness:
  "(\<exists>M. GenGlobalMatrix eMass 0 4 ex_l2g ex_exps = Inr M \<and>
        coo M (1, 1) = Some 4 \<and> coo M (1, 2) = Some 1 \<and> coo M (2, 0) = None) \<and>
   (\<exists>G. GenGlobalMatrixFull eMass 0 ex_l2g ex_exps = Inr G \<and>
        GetValue G 0 0 = 4 \<and> GetValue G 0 1 = 1 \<and> GetValue G 1 0 = 1)"
proof -
  have nv: "\<not> ((0::int) > 0 \<and> ex_exps \<noteq> [])" by simp
  note t = scatter_add_sums [OF nv, of eMass 4 ex_l2g]
  have mt: "eMass = eMass \<or> eMass = eHelmholtz \<or> eMass = eLaplacian" by simp
  obtain M where M: "GenGlobalMatrix eMass 0 4 ex_l2g ex_exps = Inr M"
    and c: "\<forall>g1 g2. coo M (g1, g2) =
              (if \<exists>n<length ex_exps. \<exists>i<rows_at ex_exps n. \<exists>j<lda_at ex_exps n.
                    glob_hit ex_l2g ex_exps n i j g1 g2
               then Some (\<Sum>n<length ex_exps. \<Sum>i<rows_at ex_exps n. \<Sum>j<lda_at ex_exps n.
                            glob_contrib ex_l2g ex_exps n i j g1 g2)
               else None)"
    using conjunct1 [OF t, THEN mp, OF mt] by blast
  obtain G where G: "GenGlobalMatrixFull eMass 0 ex_l2g ex_exps = Inr G"
    and g: "\<forall>g1 g2. gstorage G = eFULL \<or> g1 \<le> g2 \<or> sym_local ex_exps \<longrightarrow>
               GetValue G g1 g2 =
                 (\<Sum>n<length ex_exps. \<Sum>i<lda_at ex_exps n. \<Sum>j<lda_at ex_exps n.
                    free_contrib ex_l2g ex_exps n i j g1 g2)"
    using conjunct2 [OF t] by blast
  note ev = numeral_2_eq_2 ex_less_2 sum_less_2 ex_exps_facts [unfolded numeral_2_eq_2]
    ex_l2g_fields scal_elem_def elem_def glob_hit_def glob_contrib_def free_contrib_def
  have c11: "coo M (1, 1) = Some 4"
    unfolding c [rule_format] by (simp add: ev)
  have c12: "coo M (1, 2) = Some 1"
    unfolding c [rule_format] by (simp add: ev)
  have c20: "coo M (2, 0) = None"
    unfolding c [rule_format] by (simp add: ev)
  have g00: "GetValue G 0 0 = 4"
    by (subst g [rule_format]) (simp_all add: ev)
  have g01: "GetValue G 0 1 = 1"
    by (subst g [rule_format]) (simp_all add: ev)
  have g10: "GetValue G 1 0 = 1"
    by (subst g [rule_format]) (simp_all add: ev ex_sym_local)
  show ?thesis
    using M G c11 c12 c20 g00 g01 g10 by simp
qed

text \<open>
  Claim C5. The assembled matrix over the free degrees of freedom is symmetric,
  \<open>Global[g1][g2] = Global[g2][g1]\<close> for every pair: for Helmholtz and Laplacian, which are
  assembled into symmetric storage from the upper triangle, and for any other kind whenever
  the local matrices are symmetric (over the reals, so with no tolerance).
\<close>

theorem assembled_symmetric:
  assumes nv: "\<not> (nvarcoeffs > 0 \<and> exps \<noteq> [])"
    and sym: "mtype = eHelmholtz \<or> mtype = eLaplacian \<or> sym_local exps"
  shows "\<exists>G. GenGlobalMatrixFull mtype nvarcoeffs l2g exps = Inr G \<and>
           (\<forall>g1 g2. GetValue G g1 g2 = GetValue G g2 g1)"
proof -
  obtain G where G: "GenGlobalMatrixFull mtype nvarcoeffs l2g exps = Inr G"
    and st: "gstorage G = matStorage_of mtype (FullSystemBandWidth l2g)
                          (word_of_int (NumGlobalCoeffs l2g - NumGlobalDirBndCoeffs l2g))"
    and d: "\<And>p. gdata G p =
              (\<Sum>n<length exps. \<Sum>i<lda_at exps n. \<Sum>j<lda_at exps n.
                 full_contrib l2g (gstorage G) (LocMat (exps ! n)) (cnt_at exps n) i j p)"
    using GenGlobalMatrixFull_data [OF nv, of mtype l2g] by blast
  have "GetValue G g1 g2 = GetValue G g2 g1" for g1 g2
  proof (cases "gstorage G = eFULL")
    case False
    then have "gstorage G = ePOSITIVE_DEFINITE_SYMMETRIC \<or>
               gstorage G = ePOSITIVE_DEFINITE_SYMMETRIC_BANDED"
      using matStorage_of_cases [of mtype "FullSystemBandWidth l2g"
          "word_of_int (NumGlobalCoeffs l2g - NumGlobalDirBndCoeffs l2g)"] st by simp
    then show ?thesis
      by (simp add: GetValue_def slot_sym [of "gstorage G" g1 g2])
  next
    case True
    then have sl: "sym_local exps"
      using sym st matStorage_of_symmetric_kind [of mtype "FullSystemBandWidth l2g"
          "word_of_int (NumGlobalCoeffs l2g - NumGlobalDirBndCoeffs l2g)"] by auto
    have "(\<Sum>i<lda_at exps n. \<Sum>j<lda_at exps n.
              full_contrib l2g eFULL (LocMat (exps ! n)) (cnt_at exps n) i j (g1, g2)) =
          (\<Sum>i<lda_at exps n. \<Sum>j<lda_at exps n.
              full_contrib l2g eFULL (LocMat (exps ! n)) (cnt_at exps n) i j (g2, g1))"
      if "n < length exps" for n
      by (rule double_sum_transpose) (use sl that in \<open>simp add: full_contrib_swap sym_local_def\<close>)
    then show ?thesis
      by (simp add: GetValue_def d True slot_def)
  qed
  then show ?thesis using G by blast
qed

theorem assembled_symmetric_witness:
  "sym_local ex_exps \<and>
   (\<exists>G. GenGlobalMatrixFull eMass 0 ex_l2g ex_exps = Inr G \<and>
        (\<forall>g1 g2. GetValue G g1 g2 = GetValue G g2 g1)) \<and>
   (\<exists>G. GenGlobalMatrixFull eHelmholtz 0 ex_l2g ex_exps = Inr G \<and>
        (\<forall>g1 g2. GetValue G g1 g2 = GetValue G g2 g1))"
proof -
  have nv: "\<not> ((0::int) > 0 \<and> ex_exps \<noteq> [])" by simp
  have s1: "eMass = eHelmholtz \<or> eMass = eLaplacian \<or> sym_local ex_exps"
    using ex_sym_local by simp
  have s2: "eHelmholtz = eHelmholtz \<or> eHelmholtz = eLaplacian \<or> sym_local ex_exps"
    by simp
  show ?thesis
    using assembled_symmetric [OF nv s1, of ex_l2g] assembled_symmetric [OF nv s2, of ex_l2g]
      ex_sym_local
    by simp
qed

lemma full_contrib_free_only:
  assumes "NumGlobalDirBndCoeffs l2g \<le> LocalToGlobalMap l2g ! (cnt + i) \<and>
           NumGlobalDirBndCoeffs l2g \<le> LocalToGlobalMap l2g ! (cnt + j) \<longrightarrow>
           scal_elem loc' i j = scal_elem loc i j"
  shows "full_contrib l2g st loc' cnt i j p = full_contrib l2g st loc cnt i j p"
  using assms by (auto simp: full_contrib_def Let_def)

lemma same_free_cnt_at:
  assumes "same_free_entries l2g exps exps'" and "n \<le> length exps"
  shows "cnt_at exps' n = cnt_at exps n"
proof -
  have "map Ncoeffs (take n exps') = map Ncoeffs (take n exps)"
    using assms by (intro nth_equalityI) (auto simp: same_free_entries_def)
  then show ?thesis by (simp add: cnt_at_def)
qed

text \<open>
  Claim C4. The assembled matrix has \<open>nGlobal - nDirichlet\<close> rows and columns, and no local
  entry whose row or column maps to a global index below \<open>nDirichlet\<close> enters it: two lists
  of elements that differ only in such entries assemble to the same matrix.
\<close>

theorem dirichlet_excluded:
  assumes nv: "\<not> (nvarcoeffs > 0 \<and> exps \<noteq> [])"
    and same: "same_free_entries l2g exps exps'"
  shows "GenGlobalMatrixFull mtype nvarcoeffs l2g exps' = GenGlobalMatrixFull mtype nvarcoeffs l2g exps \<and>
         (\<exists>G. GenGlobalMatrixFull mtype nvarcoeffs l2g exps = Inr G \<and>
            grows G = word_of_int (NumGlobalCoeffs l2g - NumGlobalDirBndCoeffs l2g) \<and>
            gcols G = word_of_int (NumGlobalCoeffs l2g - NumGlobalDirBndCoeffs l2g) \<and>
            (0 \<le> NumGlobalCoeffs l2g - NumGlobalDirBndCoeffs l2g \<and>
             NumGlobalCoeffs l2g - NumGlobalDirBndCoeffs l2g < 2 ^ 32 \<longrightarrow>
               unat (grows G) = nat (NumGlobalCoeffs l2g - NumGlobalDirBndCoeffs l2g) \<and>
               unat (gcols G) = nat (NumGlobalCoeffs l2g - NumGlobalDirBndCoeffs l2g)))"
proof -
  have len: "length exps' = length exps"
    using same by (simp add: same_free_entries_def)
  have nv': "\<not> (nvarcoeffs > 0 \<and> exps' \<noteq> [])"
    using nv len by auto
  obtain G where G: "GenGlobalMatrixFull mtype nvarcoeffs l2g exps = Inr G"
    and r: "grows G = word_of_int (NumGlobalCoeffs l2g - NumGlobalDirBndCoeffs l2g)"
    and c: "gcols G = word_of_int (NumGlobalCoeffs l2g - NumGlobalDirBndCoeffs l2g)"
    and st: "gstorage G = matStorage_of mtype (FullSystemBandWidth l2g)
                          (word_of_int (NumGlobalCoeffs l2g - NumGlobalDirBndCoeffs l2g))"
    and d: "\<And>p. gdata G p =
              (\<Sum>n<length exps. \<Sum>i<lda_at exps n. \<Sum>j<lda_at exps n.
                 full_contrib l2g (gstorage G) (LocMat (exps ! n)) (cnt_at exps n) i j p)"
    using GenGlobalMatrixFull_data [OF nv, of mtype l2g] by blast
  obtain G' where G': "GenGlobalMatrixFull mtype nvarcoeffs l2g exps' = Inr G'"
    and r': "grows G' = word_of_int (NumGlobalCoeffs l2g - NumGlobalDirBndCoeffs l2g)"
    and c': "gcols G' = word_of_int (NumGlobalCoeffs l2g - NumGlobalDirBndCoeffs l2g)"
    and st': "gstorage G' = matStorage_of mtype (FullSystemBandWidth l2g)
                          (word_of_int (NumGlobalCoeffs l2g - NumGlobalDirBndCoeffs l2g))"
    and d': "\<And>p. gdata G' p =
              (\<Sum>n<length exps'. \<Sum>i<lda_at exps' n. \<Sum>j<lda_at exps' n.
                 full_contrib l2g (gstorage G') (LocMat (exps' ! n)) (cnt_at exps' n) i j p)"
    using GenGlobalMatrixFull_data [OF nv', of mtype l2g] by blast
  have sts: "gstorage G' = gstorage G" by (simp add: st st')
  have "gdata G' p = gdata G p" for p
  proof -
    have inner: "(\<Sum>i<lda_at exps' n. \<Sum>j<lda_at exps' n.
                    full_contrib l2g (gstorage G) (LocMat (exps' ! n)) (cnt_at exps' n) i j p) =
                 (\<Sum>i<lda_at exps n. \<Sum>j<lda_at exps n.
                    full_contrib l2g (gstorage G) (LocMat (exps ! n)) (cnt_at exps n) i j p)"
      if n: "n < length exps" for n
    proof -
      have lda: "lda_at exps' n = lda_at exps n"
        using same n by (simp add: same_free_entries_def)
      have cnt: "cnt_at exps' n = cnt_at exps n"
        using same_free_cnt_at [OF same, of n] n by simp
      have free: "NumGlobalDirBndCoeffs l2g \<le> LocalToGlobalMap l2g ! (cnt_at exps n + i) \<and>
           NumGlobalDirBndCoeffs l2g \<le> LocalToGlobalMap l2g ! (cnt_at exps n + j) \<longrightarrow>
           scal_elem (LocMat (exps' ! n)) i j = scal_elem (LocMat (exps ! n)) i j"
        if "i < lda_at exps n" "j < lda_at exps n" for i j
        using same n that by (simp add: same_free_entries_def)
      show ?thesis
        unfolding lda cnt
        by (intro sum.cong refl full_contrib_free_only free) simp_all
    qed
    show ?thesis
      unfolding d d' len sts by (intro sum.cong refl inner) simp
  qed
  then have "gdata G' = gdata G" by (rule ext)
  then have "G' = G"
    using r r' c c' sts by (intro GlobalMat.equality) simp_all
  moreover have "unat (grows G) = nat (NumGlobalCoeffs l2g - NumGlobalDirBndCoeffs l2g) \<and>
                 unat (gcols G) = nat (NumGlobalCoeffs l2g - NumGlobalDirBndCoeffs l2g)"
    if "0 \<le> NumGlobalCoeffs l2g - NumGlobalDirBndCoeffs l2g \<and>
        NumGlobalCoeffs l2g - NumGlobalDirBndCoeffs l2g < 2 ^ 32"
    unfolding r c using unat_word_of_int_small [OF conjunct1 [OF that] conjunct2 [OF that]]
    by blast
  ultimately show ?thesis
    using G G' r c by simp
qed

theorem dirichlet_excluded_witness:
  "same_free_entries ex_l2g ex_exps ex_exps' \<and>
   LocMat (ex_exps' ! 0) \<noteq> LocMat (ex_exps ! 0) \<and>
   GenGlobalMatrixFull eMass 0 ex_l2g ex_exps' = GenGlobalMatrixFull eMass 0 ex_l2g ex_exps \<and>
   (\<exists>G. GenGlobalMatrixFull eMass 0 ex_l2g ex_exps = Inr G \<and>
        unat (grows G) = 2 \<and> unat (gcols G) = 2)"
proof -
  have nv: "\<not> ((0::int) > 0 \<and> ex_exps \<noteq> [])" by simp
  have ne: "LocMat (ex_exps' ! 0) \<noteq> LocMat (ex_exps ! 0)"
    by (simp add: ex_exps_facts ex_exps'_facts)
  show ?thesis
    using dirichlet_excluded [OF nv ex_same_free, of eMass] ex_same_free ne
    by (auto simp: ex_l2g_fields)
qed


lemma word_of_int_less_small:
  assumes "0 \<le> a" "a < 2 ^ 32" "0 \<le> b" "b < 2 ^ 32"
  shows "(word_of_int a :: uint) < word_of_int b \<longleftrightarrow> a < b"
  using assms by (auto simp: word_less_nat_alt unat_word_of_int_small)

text \<open>
  Claim C6. With a bandwidth that is not negative and sizes within the range of the
  integer types, the storage of the assembled matrix is banded symmetric exactly when
  \<open>2 * (bandwidth + 1)\<close> is less than the number of free rows and full symmetric otherwise
  for Helmholtz and Laplacian, and full (general) storage for every other kind.
\<close>

theorem storage_policy:
  assumes nv: "\<not> (nvarcoeffs > 0 \<and> exps \<noteq> [])"
    and rows: "0 \<le> NumGlobalCoeffs l2g - NumGlobalDirBndCoeffs l2g"
              "NumGlobalCoeffs l2g - NumGlobalDirBndCoeffs l2g < 2 ^ 32"
    and bw: "0 \<le> FullSystemBandWidth l2g" "2 * (FullSystemBandWidth l2g + 1) < 2 ^ 32"
  shows "\<exists>G. GenGlobalMatrixFull mtype nvarcoeffs l2g exps = Inr G \<and>
           unat (grows G) = nat (NumGlobalCoeffs l2g - NumGlobalDirBndCoeffs l2g) \<and>
           gstorage G =
             (if mtype = eHelmholtz \<or> mtype = eLaplacian
              then (if 2 * (FullSystemBandWidth l2g + 1) <
                         NumGlobalCoeffs l2g - NumGlobalDirBndCoeffs l2g
                    then ePOSITIVE_DEFINITE_SYMMETRIC_BANDED
                    else ePOSITIVE_DEFINITE_SYMMETRIC)
              else eFULL)"
proof -
  obtain G where G: "GenGlobalMatrixFull mtype nvarcoeffs l2g exps = Inr G"
    and r: "grows G = word_of_int (NumGlobalCoeffs l2g - NumGlobalDirBndCoeffs l2g)"
    and st: "gstorage G = matStorage_of mtype (FullSystemBandWidth l2g)
                          (word_of_int (NumGlobalCoeffs l2g - NumGlobalDirBndCoeffs l2g))"
    using GenGlobalMatrixFull_data [OF nv, of mtype l2g] by blast
  have b0: "0 \<le> 2 * (FullSystemBandWidth l2g + 1)" using bw(1) by simp
  have u: "unat (grows G) = nat (NumGlobalCoeffs l2g - NumGlobalDirBndCoeffs l2g)"
    unfolding r by (rule unat_word_of_int_small [OF rows])
  have "gstorage G =
             (if mtype = eHelmholtz \<or> mtype = eLaplacian
              then (if 2 * (FullSystemBandWidth l2g + 1) <
                         NumGlobalCoeffs l2g - NumGlobalDirBndCoeffs l2g
                    then ePOSITIVE_DEFINITE_SYMMETRIC_BANDED
                    else ePOSITIVE_DEFINITE_SYMMETRIC)
              else eFULL)"
    unfolding st matStorage_of_def
    by (simp only: word_of_int_less_small [OF b0 bw(2) rows])
  then show ?thesis using G u by blast
qed


theorem storage_policy_witness:
  "(\<exists>G. GenGlobalMatrixFull eHelmholtz 0 ex_l2g ex_exps = Inr G \<and> unat (grows G) = 2 \<and>
        gstorage G = ePOSITIVE_DEFINITE_SYMMETRIC) \<and>
   (\<exists>G. GenGlobalMatrixFull eLaplacian 0 ex_l2g_wide ex_exps = Inr G \<and> unat (grows G) = 9 \<and>
        gstorage G = ePOSITIVE_DEFINITE_SYMMETRIC_BANDED) \<and>
   (\<exists>G. GenGlobalMatrixFull eMass 0 ex_l2g_wide ex_exps = Inr G \<and> unat (grows G) = 9 \<and>
        gstorage G = eFULL)"
proof -
  have nv: "\<not> ((0::int) > 0 \<and> ex_exps \<noteq> [])" by simp
  have a: "0 \<le> NumGlobalCoeffs ex_l2g - NumGlobalDirBndCoeffs ex_l2g"
    "NumGlobalCoeffs ex_l2g - NumGlobalDirBndCoeffs ex_l2g < 2 ^ 32"
    "0 \<le> FullSystemBandWidth ex_l2g" "2 * (FullSystemBandWidth ex_l2g + 1) < 2 ^ 32"
    by (simp_all add: ex_l2g_fields)
  have b: "0 \<le> NumGlobalCoeffs ex_l2g_wide - NumGlobalDirBndCoeffs ex_l2g_wide"
    "NumGlobalCoeffs ex_l2g_wide - NumGlobalDirBndCoeffs ex_l2g_wide < 2 ^ 32"
    "0 \<le> FullSystemBandWidth ex_l2g_wide" "2 * (FullSystemBandWidth ex_l2g_wide + 1) < 2 ^ 32"
    by (simp_all add: ex_l2g_wide_fields)
  show ?thesis
    using storage_policy [OF nv a, of eHelmholtz] storage_policy [OF nv b, of eLaplacian]
      storage_policy [OF nv b, of eMass]
    by (simp add: ex_l2g_fields ex_l2g_wide_fields)
qed



end
